theory Spec2Isabelle
  imports Main "HOL-Library.Sublist"
begin

section \<open>Mixed Soong/Bazel builds: the request ledger, the query pass and the splicer\<close>

text \<open>
  The theory embeds the Bazel handler of Soong (the second file of
  \<^verbatim>\<open>src/cc/bp2build.go\<close>, package \<^verbatim>\<open>android\<close>) and the driver
  \<^verbatim>\<open>runMixedModeBuild\<close> of \<^verbatim>\<open>soong_build\<close>. Go strings are byte
  strings, modelled as \<^typ>\<open>string\<close>; a Go \<^verbatim>\<open>error\<close> is modelled by its message, and
  \<^verbatim>\<open>nil\<close> by \<^const>\<open>None\<close>.
\<close>

type_synonym error = string

subsection \<open>The functions of Go's \<^verbatim>\<open>strings\<close> package that the handler calls\<close>

text \<open>\<^verbatim>\<open>strings.HasPrefix(s, prefix)\<close>.\<close>

definition HasPrefix :: "string \<Rightarrow> string \<Rightarrow> bool" where
  "HasPrefix s pre = (take (length pre) s = pre)"

text \<open>
  \<^verbatim>\<open>strings.Index(s, substr)\<close>: the position of the first occurrence of
  \<open>substr\<close> in \<open>s\<close>; Go's \<open>-1\<close> is \<^const>\<open>None\<close>.
\<close>

fun Index :: "string \<Rightarrow> string \<Rightarrow> nat option" where
  "Index [] substr = (if substr = [] then Some 0 else None)"
| "Index (c # s) substr =
     (if HasPrefix (c # s) substr then Some 0 else map_option Suc (Index s substr))"

text \<open>\<^verbatim>\<open>strings.Contains(s, substr)\<close> is \<^verbatim>\<open>Index(s, substr) >= 0\<close>.\<close>

definition Contains :: "string \<Rightarrow> string \<Rightarrow> bool" where
  "Contains s substr = (Index s substr \<noteq> None)"

text \<open>
  \<^verbatim>\<open>strings.SplitN(s, sep, 2)\<close>: at most two pieces, cut at the first occurrence of
  \<open>sep\<close>; the whole string alone when \<open>sep\<close> does not occur.
\<close>

definition SplitN_2 :: "string \<Rightarrow> string \<Rightarrow> string list" where
  "SplitN_2 s sep =
     (case Index s sep of
        None \<Rightarrow> [s]
      | Some i \<Rightarrow> [take i s, drop (i + length sep) s])"

text \<open>
  \<^verbatim>\<open>strings.Split(s, "\n")\<close>: the separator is the single byte \<open>0x0A\<close>, so the
  string is cut at every newline; \<open>n\<close> newlines give \<open>n + 1\<close> pieces, empty ones
  included. \<open>Split_from\<close> scans the string with the piece read so far.
\<close>

fun Split_from :: "string \<Rightarrow> char \<Rightarrow> string \<Rightarrow> string list" where
  "Split_from [] sep piece = [piece]"
| "Split_from (c # s) sep piece =
     (if c = sep then piece # Split_from s sep [] else Split_from s sep (piece @ [c]))"

definition Split_byte :: "string \<Rightarrow> char \<Rightarrow> string list" where
  "Split_byte s sep = Split_from s sep []"

definition newline :: char where
  "newline = CHR 0x0A"

text \<open>\<^verbatim>\<open>strings.Join(elems, sep)\<close>.\<close>

fun Join :: "string list \<Rightarrow> string \<Rightarrow> string" where
  "Join [] sep = []"
| "Join [x] sep = x"
| "Join (x # y # ys) sep = x @ sep @ Join (y # ys) sep"

text \<open>\<^verbatim>\<open>fmt\<close>'s \<^verbatim>\<open>%s\<close> applied to a \<^verbatim>\<open>[]string\<close>: the elements between
  brackets, separated by spaces.\<close>

definition fmt_strings :: "string list \<Rightarrow> string" where
  "fmt_strings xs = ''['' @ Join xs '' '' @ '']''"

subsection \<open>Request keys\<close>

text \<open>
  Modelled from the spec: the architecture tag of a RequestKey. The declaration of
  \<^verbatim>\<open>ArchType\<close> is not among the sources; the handler reads its field \<^verbatim>\<open>Name\<close> only
  (\<^verbatim>\<open>key.archType.Name\<close>).
\<close>

record ArchType =
  Name :: string

text \<open>
  The interface \<^verbatim>\<open>cqueryRequest\<close>: a value is given by what its two methods return.
\<close>

record cqueryRequest =
  request_Name :: string
  StarlarkFunctionBody :: string

text \<open>\<^verbatim>\<open>type cqueryKey struct\<close>: the map key describing one cquery request.\<close>

record cqueryKey =
  label :: string
  requestType :: cqueryRequest
  archType :: ArchType

definition canonicalizeLabel :: "string \<Rightarrow> string" where
  "canonicalizeLabel l =
     (if HasPrefix l ''//'' then ''@sourceroot'' @ l else ''@sourceroot//'' @ l)"

definition getArchString :: "cqueryKey \<Rightarrow> string" where
  "getArchString key =
     (let arch = Name (archType key)
      in if length arch > 0 then arch else ''x86_64'')"

definition getCqueryId :: "cqueryKey \<Rightarrow> string" where
  "getCqueryId key = canonicalizeLabel (label key) @ ''|'' @ getArchString key"

subsection \<open>The request ledger\<close>

record bazelPaths =
  homeDir :: string
  bazelPath :: string
  outputBase :: string
  workspaceDir :: string
  buildDir :: string
  metricsDir :: string

text \<open>
  Modelled from the spec: a BuildStatement is one parsed action of the remote engine
  (mnemonic, command, input paths, output paths, optional depfile). The declaration of
  \<^verbatim>\<open>bazel.BuildStatement\<close> is not among the sources; these are the fields the
  splicer reads. A \<^verbatim>\<open>nil\<close> depfile is \<^const>\<open>None\<close>.
\<close>

record BuildStatement =
  Command :: string
  Depfile :: "string option"
  OutputPaths :: "string list"
  InputPaths :: "string list"
  Mnemonic :: string

text \<open>
  \<^verbatim>\<open>type bazelContext struct\<close>. A Go map is a finite partial function; reading a
  \<^verbatim>\<open>nil\<close> map behaves as reading an empty one. The embedded \<^verbatim>\<open>bazelRunner\<close> is an
  external collaborator and is passed to \<^verbatim>\<open>InvokeBazel\<close> separately. The field
  \<open>requestMutex\<close> records whether the mutex is held.
\<close>

record bazelContext =
  paths :: bazelPaths
  requests :: "cqueryKey \<rightharpoonup> bool"
  requestMutex :: bool
  results :: "cqueryKey \<rightharpoonup> string"
  buildStatements :: "BuildStatement list"

text \<open>
  The operations on the request mutex and on the requests map are recorded, in the
  order in which they are performed, in a trace that accompanies the context:
  \<open>RequestsInsert key held\<close> is the insertion of \<open>key\<close> into the requests, with
  \<open>held\<close> telling whether the mutex was held at that moment.
\<close>

datatype ledgerEvent = MutexLock | RequestsInsert cqueryKey bool | MutexUnlock

text \<open>
  \<^verbatim>\<open>sync.Mutex\<close>: the model is sequential, so \<^verbatim>\<open>Lock\<close> takes the mutex and
  \<^verbatim>\<open>Unlock\<close> releases it; a caller that would wait for another holder is outside the
  model.
\<close>

definition mutex_Lock :: "bazelContext \<times> ledgerEvent list \<Rightarrow> bazelContext \<times> ledgerEvent list" where
  "mutex_Lock s = ((fst s)\<lparr>requestMutex := True\<rparr>, snd s @ [MutexLock])"

definition mutex_Unlock :: "bazelContext \<times> ledgerEvent list \<Rightarrow> bazelContext \<times> ledgerEvent list" where
  "mutex_Unlock s = ((fst s)\<lparr>requestMutex := False\<rparr>, snd s @ [MutexUnlock])"

text \<open>The assignment \<^verbatim>\<open>context.requests[key] = true\<close>.\<close>

definition requests_insert ::
  "cqueryKey \<Rightarrow> bazelContext \<times> ledgerEvent list \<Rightarrow> bazelContext \<times> ledgerEvent list" where
  "requests_insert key s =
     ((fst s)\<lparr>requests := (requests (fst s))(key \<mapsto> True)\<rparr>,
      snd s @ [RequestsInsert key (requestMutex (fst s))])"

text \<open>
  \<^verbatim>\<open>func (context *bazelContext) cquery\<close>, on a context with its trace: returns the
  context and the trace as the call leaves them, the result string and the flag. The
  deferred \<^verbatim>\<open>Unlock\<close> runs after the insertion.
\<close>

definition cquery_traced ::
  "bazelContext \<times> ledgerEvent list \<Rightarrow> string \<Rightarrow> cqueryRequest \<Rightarrow> ArchType
     \<Rightarrow> (bazelContext \<times> ledgerEvent list) \<times> string \<times> bool" where
  "cquery_traced s l rt a =
     (let key = \<lparr>label = l, requestType = rt, archType = a\<rparr>
      in case results (fst s) key of
           Some result \<Rightarrow> (s, result, True)
         | None \<Rightarrow>
             (let locked = mutex_Lock s;
                  inserted = requests_insert key locked
              in (mutex_Unlock inserted, [], False)))"

text \<open>The same function without the trace: the context, the result string and the flag.\<close>

definition cquery ::
  "bazelContext \<Rightarrow> string \<Rightarrow> cqueryRequest \<Rightarrow> ArchType \<Rightarrow> bazelContext \<times> string \<times> bool" where
  "cquery bazelCtx l rt a =
     (let (s, result, ok) = cquery_traced (bazelCtx, []) l rt a
      in (fst s, result, ok))"

text \<open>A run of \<^verbatim>\<open>cquery\<close> calls, one per key of the list, in order.\<close>

fun cquery_calls :: "bazelContext \<Rightarrow> cqueryKey list \<Rightarrow> bazelContext" where
  "cquery_calls bazelCtx [] = bazelCtx"
| "cquery_calls bazelCtx (k # ks) =
     cquery_calls (fst (cquery bazelCtx (label k) (requestType k) (archType k))) ks"

subsection \<open>The query-result pass\<close>

text \<open>
  The body of the loop over the lines of the cquery output. \<^verbatim>\<open>splitLine[0]\<close> and
  \<^verbatim>\<open>splitLine[1]\<close> are in range whenever the guard holds (lemma
  \<open>SplitN_2_Contains\<close> below), so the loop cannot panic.
\<close>

definition cqueryResults_line :: "(string \<rightharpoonup> string) \<Rightarrow> string \<Rightarrow> (string \<rightharpoonup> string)" where
  "cqueryResults_line m outputLine =
     (if Contains outputLine ''>>''
      then (let splitLine = SplitN_2 outputLine ''>>''
            in m(splitLine ! 0 \<mapsto> splitLine ! 1))
      else m)"

definition cqueryResults :: "string \<Rightarrow> (string \<rightharpoonup> string)" where
  "cqueryResults cqueryOutput =
     foldl cqueryResults_line Map.empty (Split_byte cqueryOutput newline)"

subsection \<open>Construction from the configuration\<close>

text \<open>
  \<^verbatim>\<open>type config struct\<close>, as far as the handler reads it. The method
  \<^verbatim>\<open>c.Getenv\<close> is not among the sources and is a field here: it gives the value of
  a setting, and the empty string for a setting that is absent.
\<close>

record config =
  config_buildDir :: string
  Getenv :: "string \<Rightarrow> string"

definition absent :: "config \<Rightarrow> string \<Rightarrow> bool" where
  "absent c var = (Getenv c var = [])"

definition requiredEnvVars :: "string list" where
  "requiredEnvVars =
     [''BAZEL_HOME'', ''BAZEL_PATH'', ''BAZEL_OUTPUT_BASE'', ''BAZEL_WORKSPACE'',
      ''BAZEL_METRICS_DIR'']"

definition bazelPathsFromConfig :: "config \<Rightarrow> error + bazelPaths" where
  "bazelPathsFromConfig c =
     (let p = \<lparr>homeDir = [], bazelPath = [], outputBase = [], workspaceDir = [],
                buildDir = config_buildDir c, metricsDir = []\<rparr>;
          missingEnvVars = [];
          (p, missingEnvVars) =
            (if length (Getenv c ''BAZEL_HOME'') > 1
             then (p\<lparr>homeDir := Getenv c ''BAZEL_HOME''\<rparr>, missingEnvVars)
             else (p, missingEnvVars @ [''BAZEL_HOME'']));
          (p, missingEnvVars) =
            (if length (Getenv c ''BAZEL_PATH'') > 1
             then (p\<lparr>bazelPath := Getenv c ''BAZEL_PATH''\<rparr>, missingEnvVars)
             else (p, missingEnvVars @ [''BAZEL_PATH'']));
          (p, missingEnvVars) =
            (if length (Getenv c ''BAZEL_OUTPUT_BASE'') > 1
             then (p\<lparr>outputBase := Getenv c ''BAZEL_OUTPUT_BASE''\<rparr>, missingEnvVars)
             else (p, missingEnvVars @ [''BAZEL_OUTPUT_BASE'']));
          (p, missingEnvVars) =
            (if length (Getenv c ''BAZEL_WORKSPACE'') > 1
             then (p\<lparr>workspaceDir := Getenv c ''BAZEL_WORKSPACE''\<rparr>, missingEnvVars)
             else (p, missingEnvVars @ [''BAZEL_WORKSPACE'']));
          (p, missingEnvVars) =
            (if length (Getenv c ''BAZEL_METRICS_DIR'') > 1
             then (p\<lparr>metricsDir := Getenv c ''BAZEL_METRICS_DIR''\<rparr>, missingEnvVars)
             else (p, missingEnvVars @ [''BAZEL_METRICS_DIR'']))
      in if length missingEnvVars > 0
         then Inl (''missing required env vars to use bazel: '' @ fmt_strings missingEnvVars)
         else Inr p)"

text \<open>
  \<^verbatim>\<open>type MockBazelContext struct\<close>; its field \<^verbatim>\<open>LabelToCcInfo\<close> has the type
  \<^verbatim>\<open>cquery.CcInfo\<close>, which is not among the sources, and no function embedded here
  reads it.
\<close>

record MockBazelContext =
  OutputBaseDir :: string
  LabelToOutputFiles :: "string \<rightharpoonup> string list"

text \<open>The three implementations of the interface \<^verbatim>\<open>BazelContext\<close>.\<close>

datatype BazelContext =
    Bazel bazelContext
  | Noop
  | Mock MockBazelContext

fun BazelEnabled :: "BazelContext \<Rightarrow> bool" where
  "BazelEnabled (Bazel bazelCtx) = True"
| "BazelEnabled Noop = False"
| "BazelEnabled (Mock m) = True"

fun OutputBase :: "BazelContext \<Rightarrow> string" where
  "OutputBase (Bazel bazelCtx) = outputBase (paths bazelCtx)"
| "OutputBase Noop = []"
| "OutputBase (Mock m) = OutputBaseDir m"

fun BuildStatementsToRegister :: "BazelContext \<Rightarrow> BuildStatement list" where
  "BuildStatementsToRegister (Bazel bazelCtx) = buildStatements bazelCtx"
| "BuildStatementsToRegister Noop = []"
| "BuildStatementsToRegister (Mock m) = []"

text \<open>
  \<^verbatim>\<open>NewBazelContext\<close>: the \<^verbatim>\<open>results\<close> map of the new context is \<^verbatim>\<open>nil\<close>, which
  reads as the empty map.
\<close>

definition NewBazelContext :: "config \<Rightarrow> error + BazelContext" where
  "NewBazelContext c =
     (if Getenv c ''USE_BAZEL_ANALYSIS'' \<noteq> ''1'' then Inr Noop
      else case bazelPathsFromConfig c of
             Inl err \<Rightarrow> Inl err
           | Inr p \<Rightarrow>
               Inr (Bazel \<lparr>paths = p, requests = Map.empty, requestMutex = False,
                           results = Map.empty, buildStatements = []\<rparr>))"

subsection \<open>The root build file\<close>

text \<open>
  A Go \<^verbatim>\<open>range\<close> over a map visits every key once, in an order that is not
  specified. Each such loop takes the order of its visit as a list; \<open>range_of m ks\<close>
  says that \<open>ks\<close> is a possible order for the map \<open>m\<close>.
\<close>

definition range_of :: "('k \<rightharpoonup> 'v) \<Rightarrow> 'k list \<Rightarrow> bool" where
  "range_of m ks = (distinct ks \<and> set ks = dom m)"

definition dquote :: char where
  "dquote = CHR 0x22"

text \<open>\<^verbatim>\<open>fmt.Sprintf("\"%s\"", s)\<close>.\<close>

definition quoted :: "string \<Rightarrow> string" where
  "quoted s = [dquote] @ s @ [dquote]"

text \<open>The first loop of \<^verbatim>\<open>mainBuildFileContents\<close>: the labels requested, by architecture.\<close>

definition labelsByArch_add :: "(string \<rightharpoonup> string list) \<Rightarrow> cqueryKey \<Rightarrow> (string \<rightharpoonup> string list)" where
  "labelsByArch_add labelsByArch val =
     (let labelString = quoted (canonicalizeLabel (label val));
          archString = getArchString val
      in labelsByArch(archString \<mapsto>
           (case labelsByArch archString of None \<Rightarrow> [] | Some labels \<Rightarrow> labels) @ [labelString]))"

definition labelsByArch :: "cqueryKey list \<Rightarrow> (string \<rightharpoonup> string list)" where
  "labelsByArch ks = foldl labelsByArch_add Map.empty ks"

text \<open>\<^verbatim>\<open>fmt.Sprintf(configNodeFormatString, archString, archString, labelsString)\<close>.\<close>

definition configNode :: "string \<Rightarrow> string \<Rightarrow> string" where
  "configNode archString labelsString =
     ''\<newline>config_node(name = '' @ quoted archString @ '',\<newline>''
     @ ''    arch = '' @ quoted archString @ '',\<newline>''
     @ ''    deps = ['' @ labelsString @ ''],\<newline>''
     @ '')\<newline>''"

definition listSeparator :: string where
  "listSeparator = '',\<newline>            ''"

text \<open>
  The second loop, over \<^verbatim>\<open>labelsByArch\<close>: the accumulator is
  \<^verbatim>\<open>(configNodeLabels, configNodesSection)\<close>.
\<close>

fun configNodes ::
  "(string \<rightharpoonup> string list) \<Rightarrow> string list \<Rightarrow> string list \<times> string \<Rightarrow> string list \<times> string" where
  "configNodes m [] acc = acc"
| "configNodes m (archString # rest) (configNodeLabels, configNodesSection) =
     (let labels = (case m archString of None \<Rightarrow> [] | Some labels \<Rightarrow> labels);
          labelsString = Join labels listSeparator
      in configNodes m rest
           (configNodeLabels @ [quoted ('':'' @ archString)],
            configNodesSection @ configNode archString labelsString))"

text \<open>
  \<^verbatim>\<open>mainBuildFileContents\<close>; \<open>ks\<close> is the order of the range over the requests,
  \<open>archs\<close> the order of the range over \<^verbatim>\<open>labelsByArch\<close>.
\<close>

definition mainBuildFileContents :: "cqueryKey list \<Rightarrow> string list \<Rightarrow> string" where
  "mainBuildFileContents ks archs =
     (let (configNodeLabels, configNodesSection) = configNodes (labelsByArch ks) archs ([], [])
      in ''\<newline># This file is generated by soong_build. Do not edit.\<newline>''
         @ ''load('' @ quoted '':main.bzl'' @ '', '' @ quoted ''config_node'' @ '', ''
         @ quoted ''mixed_build_root'' @ '', '' @ quoted ''phony_root'' @ '')\<newline>''
         @ ''\<newline>'' @ configNodesSection @ ''\<newline>''
         @ ''\<newline>mixed_build_root(name = '' @ quoted ''buildroot'' @ '',\<newline>''
         @ ''    deps = ['' @ Join configNodeLabels listSeparator @ ''],\<newline>''
         @ '')\<newline>''
         @ ''\<newline>phony_root(name = '' @ quoted ''phonyroot'' @ '',\<newline>''
         @ ''    deps = ['' @ quoted '':buildroot'' @ ''],\<newline>''
         @ '')\<newline>'')"

subsection \<open>The remote invocation driver\<close>

record bazelCommand =
  command :: string
  expression :: string

text \<open>
  The run names of package \<^verbatim>\<open>bazel\<close> that the handler passes to the runner; their
  declaration is not among the sources.
\<close>

datatype RunName = CqueryBuildRootRunName | AqueryBuildRootRunName | BazelBuildPhonyRootRunName

text \<open>
  The interface \<^verbatim>\<open>bazelRunner\<close>. The outside world (file system and processes) is a
  state \<open>'w\<close> that every external call takes and returns; the results are
  \<^verbatim>\<open>(stdout, stderr, error)\<close>.
\<close>

type_synonym 'w bazelRunner =
  "'w \<Rightarrow> bazelPaths \<Rightarrow> RunName \<Rightarrow> bazelCommand \<Rightarrow> string list \<Rightarrow> 'w \<times> string \<times> string \<times> error option"

text \<open>\<^verbatim>\<open>type mockBazelRunner struct\<close> and its \<^verbatim>\<open>issueBazelCommand\<close>.\<close>

record mockBazelRunner =
  bazelCommandResults :: "bazelCommand \<rightharpoonup> string"
  commands :: "bazelCommand list"

definition mock_issueBazelCommand :: "mockBazelRunner bazelRunner" where
  "mock_issueBazelCommand r ps runName cmd extraFlags =
     (let r = r\<lparr>commands := commands r @ [cmd]\<rparr>
      in case bazelCommandResults r cmd of
           Some ret \<Rightarrow> (r, ret, [], None)
         | None \<Rightarrow> (r, [], [], None))"

text \<open>
  \<^verbatim>\<open>exec.Cmd\<close>, as far as the runner sets it. \<^verbatim>\<open>exec.Command(name, arg...)\<close> gives
  the path and the argument vector, whose first entry is the name.
\<close>

record exec_Cmd =
  Path :: string
  Args :: "string list"
  Dir :: string
  Env :: "string list"

definition exec_Command :: "string \<Rightarrow> string list \<Rightarrow> exec_Cmd" where
  "exec_Command name arg = \<lparr>Path = name, Args = name # arg, Dir = [], Env = []\<rparr>"

text \<open>\<^verbatim>\<open>(*Cmd).String\<close>: the path, then the arguments, separated by spaces.\<close>

definition Cmd_String :: "exec_Cmd \<Rightarrow> string" where
  "Cmd_String c = Join (Path c # tl (Args c)) '' ''"

text \<open>
  The collaborators that are not among the sources, as parameters: the operating
  system (\<^verbatim>\<open>os\<close>, \<^verbatim>\<open>ioutil\<close>, \<^verbatim>\<open>filepath\<close>, \<^verbatim>\<open>runtime\<close>, running a command),
  \<^verbatim>\<open>absolutePath\<close>, \<^verbatim>\<open>shared.BazelMetricsFilename\<close>, the parser
  \<^verbatim>\<open>bazel.AqueryBuildStatements\<close>, and the texts of the three generated files that
  no property below depends on (\<^verbatim>\<open>main.bzl\<close> is a constant of the source;
  \<^verbatim>\<open>buildroot.cquery\<close> and \<^verbatim>\<open>WORKSPACE.bazel\<close> are functions of the context).
  \<open>os_Stat_IsNotExist w p\<close> is \<^verbatim>\<open>os.IsNotExist(err)\<close> for the error of
  \<^verbatim>\<open>os.Stat(p)\<close>; \<open>Cmd_Output\<close> runs a command and gives its standard output, what
  it wrote to standard error, and the error of a failed run.
\<close>

record 'w collaborators =
  os_Stat_IsNotExist :: "'w \<Rightarrow> string \<Rightarrow> bool"
  os_Mkdir :: "'w \<Rightarrow> string \<Rightarrow> 'w \<times> error option"
  ioutil_WriteFile :: "'w \<Rightarrow> string \<Rightarrow> string \<Rightarrow> 'w \<times> error option"
  filepath_Join :: "string \<Rightarrow> string \<Rightarrow> string"
  absolutePath :: "string \<Rightarrow> string"
  os_Environ :: "'w \<Rightarrow> string list"
  runtime_GOOS :: string
  Cmd_Output :: "'w \<Rightarrow> exec_Cmd \<Rightarrow> 'w \<times> string \<times> string \<times> error option"
  BazelMetricsFilename :: "bazelPaths \<Rightarrow> RunName \<Rightarrow> string"
  AqueryBuildStatements :: "string \<Rightarrow> BuildStatement list \<times> error option"
  mainBzlFileContents :: string
  cqueryStarlarkFileContents :: "bazelContext \<Rightarrow> string"
  workspaceFileContents :: "bazelContext \<Rightarrow> string"

definition intermediatesDir :: "'w collaborators \<Rightarrow> bazelPaths \<Rightarrow> string" where
  "intermediatesDir sys p = filepath_Join sys (buildDir p) ''bazel''"

definition pwdPrefix :: "'w collaborators \<Rightarrow> string" where
  "pwdPrefix sys = (if runtime_GOOS sys \<noteq> ''darwin'' then ''PWD=/proc/self/cwd'' else [])"

text \<open>\<^verbatim>\<open>func (r *builtinBazelRunner) issueBazelCommand\<close>.\<close>

definition builtin_issueBazelCommand :: "'w collaborators \<Rightarrow> 'w bazelRunner" where
  "builtin_issueBazelCommand sys w ps runName cmd extraFlags =
     (let cmdFlags = [''--output_base='' @ outputBase ps, command cmd];
          cmdFlags = cmdFlags @ [expression cmd];
          cmdFlags = cmdFlags @ [''--package_path=%workspace%/'' @ intermediatesDir sys ps];
          cmdFlags = cmdFlags @ [''--profile='' @ BazelMetricsFilename sys ps runName];
          cmdFlags = cmdFlags @
            [''--platforms='' @ canonicalizeLabel ''//build/bazel/platforms:android_x86_64''];
          cmdFlags = cmdFlags @
            [''--extra_toolchains='' @ canonicalizeLabel ''//prebuilts/clang/host/linux-x86:all''];
          cmdFlags = cmdFlags @
            [''--host_platform='' @ canonicalizeLabel ''//build/bazel/platforms:linux_x86_64''];
          cmdFlags = cmdFlags @ [''--experimental_repository_disable_download''];
          cmdFlags = cmdFlags @ extraFlags;
          bazelCmd = exec_Command (bazelPath ps) cmdFlags;
          bazelCmd = bazelCmd\<lparr>Dir := workspaceDir ps\<rparr>;
          bazelCmd = bazelCmd\<lparr>Env := os_Environ sys w @
            [''HOME='' @ homeDir ps, pwdPrefix sys, ''BAZEL_DO_NOT_DETECT_CPP_TOOLCHAIN=1'']\<rparr>;
          (w, output, stderr, err) = Cmd_Output sys w bazelCmd
      in if err \<noteq> None
         then (w, [], stderr,
               Some (''bazel command failed. command: ['' @ Cmd_String bazelCmd
                     @ ''], env: ['' @ fmt_strings (Env bazelCmd)
                     @ ''], error ['' @ stderr @ '']''))
         else (w, output, stderr, None))"

subsection \<open>Invoking Bazel\<close>

text \<open>
  A call through the \<^verbatim>\<open>bazelRunner\<close> interface. Beside the world, the model keeps a
  journal of the commands passed to the runner, in the order of the calls (what
  \<^verbatim>\<open>mockBazelRunner\<close> records in \<^verbatim>\<open>commands\<close>).
\<close>

definition issueBazelCommand ::
  "'w bazelRunner \<Rightarrow> 'w \<times> bazelCommand list \<Rightarrow> bazelPaths \<Rightarrow> RunName \<Rightarrow> bazelCommand \<Rightarrow> string list
     \<Rightarrow> ('w \<times> bazelCommand list) \<times> string \<times> string \<times> error option" where
  "issueBazelCommand run wj ps runName cmd extraFlags =
     (let (w, output, stderr, err) = run (fst wj) ps runName cmd extraFlags
      in ((w, snd wj @ [cmd]), output, stderr, err))"

text \<open>
  The loop of \<^verbatim>\<open>InvokeBazel\<close> over the requests, in the order \<open>ks\<close>: it stores the
  result of every request and returns at the first request without one; the context
  keeps what was stored before.
\<close>

fun storeResults ::
  "(string \<rightharpoonup> string) \<Rightarrow> string \<Rightarrow> string \<Rightarrow> cqueryKey list \<Rightarrow> bazelContext
     \<Rightarrow> bazelContext \<times> error option" where
  "storeResults cqResults cqueryOutput cqueryErr [] bazelCtx = (bazelCtx, None)"
| "storeResults cqResults cqueryOutput cqueryErr (val # rest) bazelCtx =
     (case cqResults (getCqueryId val) of
        Some cqueryResult \<Rightarrow>
          storeResults cqResults cqueryOutput cqueryErr rest
            (bazelCtx\<lparr>results := (results bazelCtx)(val \<mapsto> cqueryResult)\<rparr>)
      | None \<Rightarrow>
          (bazelCtx,
           Some (''missing result for bazel target '' @ getCqueryId val
                 @ ''. query output: ['' @ cqueryOutput
                 @ ''], cquery err: ['' @ cqueryErr @ '']'')))"

definition buildrootLabel :: string where
  "buildrootLabel = ''//:buildroot''"

definition cqueryCommand :: bazelCommand where
  "cqueryCommand =
     \<lparr>command = ''cquery'', expression = ''kind(rule, deps('' @ buildrootLabel @ ''))''\<rparr>"

definition aqueryCommand :: bazelCommand where
  "aqueryCommand = \<lparr>command = ''aquery'', expression = ''deps('' @ buildrootLabel @ '')''\<rparr>"

definition buildCommand :: bazelCommand where
  "buildCommand = \<lparr>command = ''build'', expression = ''//:phonyroot''\<rparr>"

text \<open>
  \<^verbatim>\<open>func (context *bazelContext) InvokeBazel\<close>, in three definitions that follow
  the text of the function: the statements that write the four generated files, the
  cquery invocation with the write of \<^verbatim>\<open>cquery.out\<close>, and the function itself.
  \<open>ksBuild\<close> and \<open>archs\<close> are the orders of the two ranges of
  \<^verbatim>\<open>mainBuildFileContents\<close>, \<open>ksResults\<close> the order of the range that stores the
  results.

  The error of \<^verbatim>\<open>os.Mkdir\<close> is assigned to the \<^verbatim>\<open>err\<close> that the \<^verbatim>\<open>if\<close> statement
  declares, so the outer \<^verbatim>\<open>err\<close> is still \<^verbatim>\<open>nil\<close> at the first test.
\<close>

definition cqueryFileRelpath :: "'w collaborators \<Rightarrow> bazelContext \<Rightarrow> string" where
  "cqueryFileRelpath sys bazelCtx =
     filepath_Join sys (intermediatesDir sys (paths bazelCtx)) ''buildroot.cquery''"

definition intermediatesDirPath :: "'w collaborators \<Rightarrow> bazelContext \<Rightarrow> string" where
  "intermediatesDirPath sys bazelCtx = absolutePath sys (intermediatesDir sys (paths bazelCtx))"

definition InvokeBazel_writeFiles ::
  "'w collaborators \<Rightarrow> cqueryKey list \<Rightarrow> string list \<Rightarrow> 'w \<Rightarrow> bazelContext \<Rightarrow> 'w \<times> error option" where
  "InvokeBazel_writeFiles sys ksBuild archs w bazelCtx =
     (let (err :: error option) = None;
          w = (if os_Stat_IsNotExist sys w (intermediatesDirPath sys bazelCtx)
               then fst (os_Mkdir sys w (intermediatesDirPath sys bazelCtx)) else w)
      in if err \<noteq> None then (w, err) else
      let (w, err) = ioutil_WriteFile sys w
            (filepath_Join sys (intermediatesDirPath sys bazelCtx) ''main.bzl'')
            (mainBzlFileContents sys)
      in if err \<noteq> None then (w, err) else
      let (w, err) = ioutil_WriteFile sys w
            (filepath_Join sys (intermediatesDirPath sys bazelCtx) ''BUILD.bazel'')
            (mainBuildFileContents ksBuild archs)
      in if err \<noteq> None then (w, err) else
      let (w, err) = ioutil_WriteFile sys w
            (absolutePath sys (cqueryFileRelpath sys bazelCtx))
            (cqueryStarlarkFileContents sys bazelCtx)
      in if err \<noteq> None then (w, err) else
      let (w, err) = ioutil_WriteFile sys w
            (filepath_Join sys (intermediatesDirPath sys bazelCtx) ''WORKSPACE.bazel'')
            (workspaceFileContents sys bazelCtx)
      in if err \<noteq> None then (w, err) else (w, None))"

text \<open>
  The cquery invocation. The error of the command is assigned to \<^verbatim>\<open>err\<close>, and the
  next statement assigns \<^verbatim>\<open>err\<close> again, with the error of writing
  \<^verbatim>\<open>cquery.out\<close>. The result is \<^verbatim>\<open>cqueryOutput\<close>, \<^verbatim>\<open>cqueryErr\<close> and \<^verbatim>\<open>err\<close>
  as they are after the two statements.
\<close>

definition InvokeBazel_cquery ::
  "'w collaborators \<Rightarrow> 'w bazelRunner \<Rightarrow> 'w \<times> bazelCommand list \<Rightarrow> bazelContext
     \<Rightarrow> ('w \<times> bazelCommand list) \<times> string \<times> string \<times> error option" where
  "InvokeBazel_cquery sys run wj bazelCtx =
     (let ((w, journal), cqueryOutput, cqueryErr, err) =
            issueBazelCommand run wj (paths bazelCtx) CqueryBuildRootRunName cqueryCommand
              [''--output=starlark'', ''--starlark:file='' @ cqueryFileRelpath sys bazelCtx];
          (w, err) = ioutil_WriteFile sys w
            (filepath_Join sys (intermediatesDirPath sys bazelCtx) ''cquery.out'') cqueryOutput
      in ((w, journal), cqueryOutput, cqueryErr, err))"

text \<open>
  The function: the result is the world with the journal, the context as the call
  leaves it, and the error returned. After the cquery invocation \<^verbatim>\<open>err\<close> is tested
  twice.
\<close>

definition InvokeBazel ::
  "'w collaborators \<Rightarrow> 'w bazelRunner \<Rightarrow> cqueryKey list \<Rightarrow> string list \<Rightarrow> cqueryKey list
     \<Rightarrow> 'w \<times> bazelCommand list \<Rightarrow> bazelContext
     \<Rightarrow> ('w \<times> bazelCommand list) \<times> bazelContext \<times> error option" where
  "InvokeBazel sys run ksBuild archs ksResults wj bazelCtx =
     (let bazelCtx = bazelCtx\<lparr>results := Map.empty\<rparr>;
          (w, journal) = wj;
          (w, err) = InvokeBazel_writeFiles sys ksBuild archs w bazelCtx
      in if err \<noteq> None then ((w, journal), bazelCtx, err) else
      let ((w, journal), cqueryOutput, cqueryErr, err) =
            InvokeBazel_cquery sys run (w, journal) bazelCtx
      in if err \<noteq> None then ((w, journal), bazelCtx, err) else
         if err \<noteq> None then ((w, journal), bazelCtx, err) else
      let (bazelCtx, err) =
            storeResults (cqueryResults cqueryOutput) cqueryOutput cqueryErr ksResults bazelCtx
      in if err \<noteq> None then ((w, journal), bazelCtx, err) else
      let ((w, journal), aqueryOutput, _, err) =
            issueBazelCommand run (w, journal) (paths bazelCtx) AqueryBuildRootRunName
              aqueryCommand [''--output=jsonproto'']
      in if err \<noteq> None then ((w, journal), bazelCtx, err) else
      let (statements, err) = AqueryBuildStatements sys aqueryOutput;
          bazelCtx = bazelCtx\<lparr>buildStatements := statements\<rparr>
      in if err \<noteq> None then ((w, journal), bazelCtx, err) else
      let ((w, journal), _, _, err) =
            issueBazelCommand run (w, journal) (paths bazelCtx) BazelBuildPhonyRootRunName
              buildCommand []
      in if err \<noteq> None then ((w, journal), bazelCtx, err) else
      ((w, journal), bazelCtx\<lparr>requests := Map.empty\<rparr>, None))"

subsection \<open>The action splicer\<close>

text \<open>
  Modelled from the spec: a native build rule (command, inputs, outputs, depfile,
  restat policy). \<^verbatim>\<open>RuleBuilder\<close> is not among the sources; the record holds what the
  splicer passes to it, and each of its methods that the splicer calls sets or extends
  one field. \<open>'p\<close> is the type of the paths that \<^verbatim>\<open>PathForBazelOut\<close> returns.
\<close>

record 'p nativeRule =
  rule_Text :: string
  rule_ImplicitOutputs :: "'p list"
  rule_Implicits :: "'p list"
  rule_ImplicitDepFiles :: "'p list"
  rule_Restat :: bool
  rule_name :: string
  rule_desc :: string

definition NewRuleBuilder :: "'p nativeRule" where
  "NewRuleBuilder =
     \<lparr>rule_Text = [], rule_ImplicitOutputs = [], rule_Implicits = [],
      rule_ImplicitDepFiles = [], rule_Restat = False, rule_name = [], rule_desc = []\<rparr>"

definition cmd_Text :: "'p nativeRule \<Rightarrow> string \<Rightarrow> 'p nativeRule" where
  "cmd_Text r t = r\<lparr>rule_Text := t\<rparr>"

definition cmd_ImplicitOutput :: "'p nativeRule \<Rightarrow> 'p \<Rightarrow> 'p nativeRule" where
  "cmd_ImplicitOutput r p = r\<lparr>rule_ImplicitOutputs := rule_ImplicitOutputs r @ [p]\<rparr>"

definition cmd_Implicit :: "'p nativeRule \<Rightarrow> 'p \<Rightarrow> 'p nativeRule" where
  "cmd_Implicit r p = r\<lparr>rule_Implicits := rule_Implicits r @ [p]\<rparr>"

definition cmd_ImplicitDepFile :: "'p nativeRule \<Rightarrow> 'p \<Rightarrow> 'p nativeRule" where
  "cmd_ImplicitDepFile r p = r\<lparr>rule_ImplicitDepFiles := rule_ImplicitDepFiles r @ [p]\<rparr>"

definition Restat :: "'p nativeRule \<Rightarrow> 'p nativeRule" where
  "Restat r = r\<lparr>rule_Restat := True\<rparr>"

text \<open>
  The \<^verbatim>\<open>SingletonContext\<close>, as far as the splicer writes to it: the ninja file
  dependencies added, the errors reported, and the rules built, each in order.
\<close>

record 'p SingletonContext =
  ninjaFileDeps :: "string list"
  reportedErrors :: "string list"
  builtRules :: "'p nativeRule list"

definition AddNinjaFileDeps :: "'p SingletonContext \<Rightarrow> string \<Rightarrow> 'p SingletonContext" where
  "AddNinjaFileDeps ctx dep = ctx\<lparr>ninjaFileDeps := ninjaFileDeps ctx @ [dep]\<rparr>"

definition Errorf :: "'p SingletonContext \<Rightarrow> string \<Rightarrow> 'p SingletonContext" where
  "Errorf ctx msg = ctx\<lparr>reportedErrors := reportedErrors ctx @ [msg]\<rparr>"

text \<open>\<^verbatim>\<open>rule.Build(name, desc)\<close> hands the rule over to the context.\<close>

definition Build :: "'p SingletonContext \<Rightarrow> 'p nativeRule \<Rightarrow> string \<Rightarrow> string \<Rightarrow> 'p SingletonContext" where
  "Build ctx r name desc =
     ctx\<lparr>builtRules := builtRules ctx @ [r\<lparr>rule_name := name, rule_desc := desc\<rparr>]\<rparr>"

text \<open>
  The value of the panic of the splicer: the message is
  \<^verbatim>\<open>"unhandled build statement: "\<close> followed by the \<^verbatim>\<open>%v\<close> rendering of the
  statement; the model keeps the statement.
\<close>

datatype panic = unhandled_build_statement BuildStatement

text \<open>
  \<^verbatim>\<open>%d\<close> of an index: its decimal digits; \<open>digit\<close> is applied to numbers below ten
  only.
\<close>

definition digit :: "nat \<Rightarrow> char" where
  "digit d = ''0123456789'' ! d"

function decimal :: "nat \<Rightarrow> string" where
  "decimal n = (if n < 10 then [digit n] else decimal (n div 10) @ [digit (n mod 10)])"
  by pat_completeness auto
termination
  by (relation "measure id") auto

declare decimal.simps [simp del]

text \<open>
  The collaborators of the splicer that are not among the sources: the path of
  \<^verbatim>\<open>bazel.list\<close>, reading a file (the data and the error), \<^verbatim>\<open>strings.TrimSpace\<close>
  and \<^verbatim>\<open>PathForBazelOut\<close>.
\<close>

record 'p splicerEnv =
  bazelBuildList :: string
  ioutil_ReadFile :: "string \<Rightarrow> string \<times> error option"
  TrimSpace :: "string \<Rightarrow> string"
  PathForBazelOut :: "string \<Rightarrow> 'p"

text \<open>The body of the loop over the build statements, for one index and statement.\<close>

definition registerBuildStatement ::
  "'p splicerEnv \<Rightarrow> string \<Rightarrow> 'p SingletonContext \<Rightarrow> nat \<Rightarrow> BuildStatement
     \<Rightarrow> 'p SingletonContext \<times> panic option" where
  "registerBuildStatement env outputBaseDir ctx index buildStatement =
     (if length (Command buildStatement) < 1
      then (ctx, Some (unhandled_build_statement buildStatement))
      else
        (let rule = NewRuleBuilder;
             rule = cmd_Text rule
               (''cd '' @ outputBaseDir @ ''/execroot/__main__ && '' @ Command buildStatement);
             rule = foldl (\<lambda>r outputPath. cmd_ImplicitOutput r (PathForBazelOut env outputPath))
                      rule (OutputPaths buildStatement);
             rule = foldl (\<lambda>r inputPath. cmd_Implicit r (PathForBazelOut env inputPath))
                      rule (InputPaths buildStatement);
             rule = (case Depfile buildStatement of
                       Some depfile \<Rightarrow> cmd_ImplicitDepFile rule (PathForBazelOut env depfile)
                     | None \<Rightarrow> rule);
             rule = Restat rule
         in (Build ctx rule (''bazel '' @ decimal index) (Mnemonic buildStatement), None)))"

fun registerBuildStatements ::
  "'p splicerEnv \<Rightarrow> string \<Rightarrow> nat \<Rightarrow> BuildStatement list \<Rightarrow> 'p SingletonContext
     \<Rightarrow> 'p SingletonContext \<times> panic option" where
  "registerBuildStatements env outputBaseDir index [] ctx = (ctx, None)"
| "registerBuildStatements env outputBaseDir index (buildStatement # rest) ctx =
     (case registerBuildStatement env outputBaseDir ctx index buildStatement of
        (ctx', Some p) \<Rightarrow> (ctx', Some p)
      | (ctx', None) \<Rightarrow> registerBuildStatements env outputBaseDir (Suc index) rest ctx')"

text \<open>
  \<^verbatim>\<open>func (c *bazelSingleton) GenerateBuildActions\<close>: the context as the call leaves
  it, and the panic that ended it, if any.
\<close>

definition GenerateBuildActions ::
  "'p splicerEnv \<Rightarrow> BazelContext \<Rightarrow> 'p SingletonContext \<Rightarrow> 'p SingletonContext \<times> panic option" where
  "GenerateBuildActions env bc ctx =
     (if \<not> BazelEnabled bc then (ctx, None)
      else
        (let ctx = AddNinjaFileDeps ctx (bazelBuildList env);
             (data, err) = ioutil_ReadFile env (bazelBuildList env);
             ctx = (case err of Some e \<Rightarrow> Errorf ctx e | None \<Rightarrow> ctx);
             files = Split_byte (TrimSpace env data) newline;
             ctx = foldl AddNinjaFileDeps ctx files
         in registerBuildStatements env (OutputBase bc) 0
              (BuildStatementsToRegister bc) ctx))"

subsection \<open>The mixed-mode build\<close>

text \<open>
  Modelled from the spec: an analysis pass (\<^verbatim>\<open>bootstrap.Main\<close>, not among the
  sources) reaches the Bazel context through the facade only: graph nodes request facts,
  each request being one call of \<^verbatim>\<open>cquery\<close>. A pass is the list of the keys it
  requests. \<^verbatim>\<open>android.ConfigForAdditionalRun\<close> is not among the sources either: the
  second pass runs on the same ledger, and \<open>additionalRunErr\<close> is the error it returns.
\<close>

datatype outcome = Completed | Exit nat

definition runMixedModeBuild ::
  "'w collaborators \<Rightarrow> 'w bazelRunner \<Rightarrow> cqueryKey list \<Rightarrow> string list \<Rightarrow> cqueryKey list
     \<Rightarrow> cqueryKey list \<Rightarrow> error option \<Rightarrow> cqueryKey list
     \<Rightarrow> 'w \<times> bazelCommand list \<Rightarrow> bazelContext
     \<Rightarrow> ('w \<times> bazelCommand list) \<times> bazelContext \<times> outcome" where
  "runMixedModeBuild sys run ksBuild archs ksResults firstPass additionalRunErr secondPass
       wj bazelCtx =
     (let bazelCtx = cquery_calls bazelCtx firstPass;
          (wj, bazelCtx, err) = InvokeBazel sys run ksBuild archs ksResults wj bazelCtx
      in if err \<noteq> None then (wj, bazelCtx, Exit 1)
         else if additionalRunErr \<noteq> None then (wj, bazelCtx, Exit 1)
         else (wj, cquery_calls bazelCtx secondPass, Completed))"

subsection \<open>Auxiliary notions and example values\<close>

text \<open>
  \<open>has_id l i\<close>: the loop of the query-result pass stores the line \<open>l\<close> under the
  id \<open>i\<close>.
\<close>

definition has_id :: "string \<Rightarrow> string \<Rightarrow> bool" where
  "has_id l i = (Contains l ''>>'' \<and> SplitN_2 l ''>>'' ! 0 = i)"

definition examplePaths :: bazelPaths where
  "examplePaths =
     \<lparr>homeDir = ''/home/bazel'', bazelPath = ''/usr/bin/bazel'', outputBase = ''/out/base'',
      workspaceDir = ''/src'', buildDir = ''out/soong'', metricsDir = ''/out/metrics''\<rparr>"

definition emptyContext :: bazelContext where
  "emptyContext =
     \<lparr>paths = examplePaths, requests = Map.empty, requestMutex = False,
      results = Map.empty, buildStatements = []\<rparr>"

definition getOutputFiles :: cqueryRequest where
  "getOutputFiles = \<lparr>request_Name = ''getOutputFiles'', StarlarkFunctionBody = []\<rparr>"

definition Arm64 :: ArchType where
  "Arm64 = \<lparr>Name = ''arm64''\<rparr>"

definition X86_64 :: ArchType where
  "X86_64 = \<lparr>Name = ''x86_64''\<rparr>"

text \<open>\<open>issued name journal\<close>: how many commands of the journal have the command name \<open>name\<close>.\<close>

definition issued :: "string \<Rightarrow> bazelCommand list \<Rightarrow> nat" where
  "issued name journal = length (filter (\<lambda>c. command c = name) journal)"

text \<open>
  A configuration with all five settings present, the workspace being the directory
  \<open>.\<close>.
\<close>

definition exampleConfig :: config where
  "exampleConfig =
     \<lparr>config_buildDir = ''out/soong'',
      Getenv = (\<lambda>var.
        if var = ''USE_BAZEL_ANALYSIS'' then ''1''
        else if var = ''BAZEL_HOME'' then ''/home/bazel''
        else if var = ''BAZEL_PATH'' then ''/usr/bin/bazel''
        else if var = ''BAZEL_OUTPUT_BASE'' then ''/out/base''
        else if var = ''BAZEL_WORKSPACE'' then ''.''
        else if var = ''BAZEL_METRICS_DIR'' then ''/out/metrics''
        else [])\<rparr>"

text \<open>
  Collaborators for the examples: \<open>quietSys\<close>, where every external call succeeds;
  \<open>readOnlySys\<close>, where no file can be written; \<open>cqueryFailsSys\<close>, where the Bazel
  process exits with an error for \<^verbatim>\<open>cquery\<close> and succeeds for every other command.
  \<open>cannedMock\<close> and \<open>silentMock\<close> are mock runners with one canned answer and with
  none.
\<close>

definition quietSys :: "'w collaborators" where
  "quietSys =
     \<lparr>os_Stat_IsNotExist = (\<lambda>w p. False),
      os_Mkdir = (\<lambda>w p. (w, None)),
      ioutil_WriteFile = (\<lambda>w p d. (w, None)),
      filepath_Join = (\<lambda>a b. a @ ''/'' @ b),
      absolutePath = (\<lambda>p. ''/src/'' @ p),
      os_Environ = (\<lambda>w. [''PATH=/usr/bin'']),
      runtime_GOOS = ''linux'',
      Cmd_Output = (\<lambda>w c. (w, [], [], None)),
      BazelMetricsFilename = (\<lambda>p n. metricsDir p @ ''/profile''),
      AqueryBuildStatements = (\<lambda>s. ([], None)),
      mainBzlFileContents = [],
      cqueryStarlarkFileContents = (\<lambda>c. []),
      workspaceFileContents = (\<lambda>c. [])\<rparr>"

definition readOnlySys :: "mockBazelRunner collaborators" where
  "readOnlySys = quietSys\<lparr>ioutil_WriteFile := (\<lambda>w p d. (w, Some ''read-only file system''))\<rparr>"

definition cqueryFailsSys :: "unit collaborators" where
  "cqueryFailsSys =
     quietSys\<lparr>Cmd_Output := (\<lambda>w c. if Args c ! 2 = ''cquery''
                            then (w, [], ''ERROR: analysis failed'', Some ''exit status 1'')
                            else (w, [], [], None))\<rparr>"

definition cannedMock :: mockBazelRunner where
  "cannedMock =
     \<lparr>bazelCommandResults = [cqueryCommand \<mapsto> ''@sourceroot//pkg:foo|arm64>>out/foo.so''],
      commands = []\<rparr>"

definition silentMock :: mockBazelRunner where
  "silentMock = \<lparr>bazelCommandResults = Map.empty, commands = []\<rparr>"

definition fooArm64 :: cqueryKey where
  "fooArm64 = \<lparr>label = ''//pkg:foo'', requestType = getOutputFiles, archType = Arm64\<rparr>"

text \<open>
  The rule that the specification describes for a build statement: the command text is
  the command of the statement after a change of directory into the execution root of
  Bazel, every output path is an implicit output, every input path an implicit input,
  a depfile that is present an implicit dependency file, and the rule is marked restat.
\<close>

definition spec_nativeRule :: "'p splicerEnv \<Rightarrow> string \<Rightarrow> nat \<Rightarrow> BuildStatement \<Rightarrow> 'p nativeRule" where
  "spec_nativeRule env outputBaseDir index s =
     \<lparr>rule_Text = ''cd '' @ outputBaseDir @ ''/execroot/__main__ && '' @ Command s,
      rule_ImplicitOutputs = map (PathForBazelOut env) (OutputPaths s),
      rule_Implicits = map (PathForBazelOut env) (InputPaths s),
      rule_ImplicitDepFiles = (case Depfile s of None \<Rightarrow> [] | Some depfile \<Rightarrow> [PathForBazelOut env depfile]),
      rule_Restat = True,
      rule_name = ''bazel '' @ decimal index,
      rule_desc = Mnemonic s\<rparr>"

text \<open>
  Examples for the splicer: collaborators, an empty singleton context, the build
  statement of the scenario of the specification, and a statement with an empty command.
\<close>

definition exampleEnv :: "string splicerEnv" where
  "exampleEnv =
     \<lparr>bazelBuildList = ''/src/out/soong/bazel.list'',
      ioutil_ReadFile = (\<lambda>p. (''build/bazel/BUILD'', None)),
      TrimSpace = (\<lambda>s. s),
      PathForBazelOut = (\<lambda>p. ''/out/base/execroot/__main__/'' @ p)\<rparr>"

definition emptySingleton :: "string SingletonContext" where
  "emptySingleton = \<lparr>ninjaFileDeps = [], reportedErrors = [], builtRules = []\<rparr>"

definition cppCompile :: BuildStatement where
  "cppCompile =
     \<lparr>Command = ''clang -c a.cc -o a.o'', Depfile = None, OutputPaths = [''a.o''],
      InputPaths = [''a.cc''], Mnemonic = ''CppCompile''\<rparr>"

definition unknownAction :: BuildStatement where
  "unknownAction =
     \<lparr>Command = [], Depfile = None, OutputPaths = [''b.o''],
      InputPaths = [''b.cc''], Mnemonic = ''Unknown''\<rparr>"

text \<open>
  The same label requested under \<open>x86_64\<close>, and a mock runner whose canned query
  output has one line for each of the two architectures.
\<close>

definition fooX86_64 :: cqueryKey where
  "fooX86_64 = \<lparr>label = ''//pkg:foo'', requestType = getOutputFiles, archType = X86_64\<rparr>"


section \<open>Properties\<close>

subsection \<open>Strings\<close>

lemma HasPrefix_Nil [simp]: "HasPrefix s []"
  by (simp add: HasPrefix_def)

lemma HasPrefix_append [simp]: "HasPrefix (p @ s) p"
  by (simp add: HasPrefix_def)

lemma HasPrefix_iff: "HasPrefix s p \<longleftrightarrow> (\<exists>t. s = p @ t)"
  unfolding HasPrefix_def
  by (metis append_eq_conv_conj append_take_drop_id)

lemma Index_Some_split:
  "Index s sep = Some n \<Longrightarrow> s = take n s @ sep @ drop (n + length sep) s"
proof (induction s arbitrary: n)
  case Nil
  then show ?case by (auto split: if_splits)
next
  case (Cons c s)
  show ?case
  proof (cases "HasPrefix (c # s) sep")
    case True
    with Cons.prems have "n = 0" by simp
    with True show ?thesis
      by (metis HasPrefix_def append_Nil append_take_drop_id add_0 take0)
  next
    case False
    with Cons.prems obtain k where k: "Index s sep = Some k" "n = Suc k" by auto
    from Cons.IH [OF k(1)] k(2) show ?thesis by simp
  qed
qed

lemma Index_None_iff: "Index s sep = None \<longleftrightarrow> (\<forall>a b. s \<noteq> a @ sep @ b)"
proof (induction s)
  case Nil
  then show ?case by auto
next
  case (Cons c s)
  show ?case
  proof (cases "HasPrefix (c # s) sep")
    case True
    then obtain t where "c # s = [] @ sep @ t" by (auto simp: HasPrefix_iff)
    with True show ?thesis by (metis Index.simps(2) option.distinct(1))
  next
    case False
    have "(\<exists>a b. c # s = a @ sep @ b) \<longleftrightarrow> (\<exists>a b. s = a @ sep @ b)"
    proof
      assume "\<exists>a b. c # s = a @ sep @ b"
      then obtain a b where ab: "c # s = a @ sep @ b" by blast
      from False ab have "a \<noteq> []" by (auto simp: HasPrefix_iff)
      then obtain a' where "a = c # a'" using ab by (cases a) auto
      with ab show "\<exists>a b. s = a @ sep @ b" by auto
    next
      assume "\<exists>a b. s = a @ sep @ b"
      then obtain a b where "s = a @ sep @ b" by blast
      then have "c # s = (c # a) @ sep @ b" by simp
      then show "\<exists>a b. c # s = a @ sep @ b" by blast
    qed
    with False Cons.IH show ?thesis by auto
  qed
qed

lemma Contains_iff: "Contains s sep \<longleftrightarrow> (\<exists>a b. s = a @ sep @ b)"
  using Index_None_iff [of s sep] by (auto simp: Contains_def)

lemma SplitN_2_Contains:
  "Contains s sep \<Longrightarrow> length (SplitN_2 s sep) = 2"
  by (auto simp: Contains_def SplitN_2_def)

lemma Index_first_gtgt:
  "Index (a @ ''>>'' @ b) ''>>'' = Some (length a) \<longleftrightarrow> \<not> Contains (a @ ''>'') ''>>''"
proof (induction a)
  case Nil
  then show ?case by (simp add: Contains_def HasPrefix_def)
next
  case (Cons c a)
  have hp: "HasPrefix (c # a @ ''>>'' @ b) ''>>'' \<longleftrightarrow> HasPrefix (c # a @ ''>'') ''>>''"
    by (cases a) (auto simp: HasPrefix_def)
  show ?case using Cons.IH hp by (auto simp: Contains_def)
qed


lemma Index_Some_le: "Index s sep = Some n \<Longrightarrow> n + length sep \<le> length s"
proof (induction s arbitrary: n)
  case Nil
  then show ?case by (auto split: if_splits)
next
  case (Cons c s)
  show ?case
  proof (cases "HasPrefix (c # s) sep")
    case True
    then have "length sep \<le> length (c # s)"
      unfolding HasPrefix_def by (metis length_take min.cobounded1)
    with True Cons.prems show ?thesis by simp
  next
    case False
    with Cons.prems obtain k where k: "Index s sep = Some k" "n = Suc k" by auto
    from Cons.IH [OF k(1)] k(2) show ?thesis by simp
  qed
qed

lemma line_id_iff:
  "Contains l ''>>'' \<and> SplitN_2 l ''>>'' ! 0 = i \<and> SplitN_2 l ''>>'' ! 1 = p
     \<longleftrightarrow> l = i @ ''>>'' @ p \<and> \<not> Contains (i @ ''>'') ''>>''"
proof
  assume L: "Contains l ''>>'' \<and> SplitN_2 l ''>>'' ! 0 = i \<and> SplitN_2 l ''>>'' ! 1 = p"
  then obtain n where n: "Index l ''>>'' = Some n" by (auto simp: Contains_def)
  with L have ip: "i = take n l" "p = drop (n + 2) l" by (auto simp: SplitN_2_def)
  from Index_Some_split [OF n] ip have l: "l = i @ ''>>'' @ p" by simp
  have "n + 2 \<le> length l" using Index_Some_le [OF n] by simp
  then have "length i = n" using ip by simp
  with n l have "Index (i @ ''>>'' @ p) ''>>'' = Some (length i)" by simp
  then show "l = i @ ''>>'' @ p \<and> \<not> Contains (i @ ''>'') ''>>''"
    using l Index_first_gtgt by blast
next
  assume R: "l = i @ ''>>'' @ p \<and> \<not> Contains (i @ ''>'') ''>>''"
  then have "Index l ''>>'' = Some (length i)" using Index_first_gtgt by blast
  with R show "Contains l ''>>'' \<and> SplitN_2 l ''>>'' ! 0 = i \<and> SplitN_2 l ''>>'' ! 1 = p"
    by (simp add: Contains_def SplitN_2_def)
qed


subsection \<open>The request ledger: cached results and queued requests\<close>

lemma cquery_traced_trace_independent:
  "fst (fst (cquery_traced (bazelCtx, trace) l rt a)) = fst (fst (cquery_traced (bazelCtx, []) l rt a))
   \<and> snd (cquery_traced (bazelCtx, trace) l rt a) = snd (cquery_traced (bazelCtx, []) l rt a)"
  by (simp add: cquery_traced_def mutex_Lock_def mutex_Unlock_def requests_insert_def Let_def
      split: option.splits)

lemma cquery_plain:
  "cquery bazelCtx l rt a =
     (case results bazelCtx \<lparr>label = l, requestType = rt, archType = a\<rparr> of
        Some result \<Rightarrow> (bazelCtx, result, True)
      | None \<Rightarrow>
          (bazelCtx\<lparr>requests := (requests bazelCtx)(\<lparr>label = l, requestType = rt, archType = a\<rparr> \<mapsto> True),
                    requestMutex := False\<rparr>, [], False))"
  by (simp add: cquery_def cquery_traced_def mutex_Lock_def mutex_Unlock_def requests_insert_def
      Let_def split: option.splits)

lemma cquery_preserves_results: "results (fst (cquery bazelCtx l rt a)) = results bazelCtx"
  by (simp add: cquery_plain split: option.splits)

lemma cquery_calls_results: "results (cquery_calls bazelCtx ks) = results bazelCtx"
  by (induction ks arbitrary: bazelCtx) (simp_all add: cquery_preserves_results)

text \<open>
  Claim C1. For every key (label, request type, arch type): when the results map holds
  the key, \<^verbatim>\<open>cquery\<close> returns the cached string and \<open>True\<close>, leaves the context as
  it is (requests and results included) and performs no operation on the mutex or on
  the requests, and every later call for the key, after any run of other \<^verbatim>\<open>cquery\<close>
  calls, returns the same; when the results map does not hold the key, \<^verbatim>\<open>cquery\<close>
  performs exactly three operations, in this order: it locks the request mutex, inserts
  the key into the requests while the mutex is held, and unlocks the mutex; it leaves
  the results as they are and returns the empty string and \<open>False\<close>.
\<close>

theorem cquery_cached_or_queued:
  "(results bazelCtx \<lparr>label = l, requestType = rt, archType = a\<rparr> = Some v \<longrightarrow>
      cquery_traced (bazelCtx, trace) l rt a = ((bazelCtx, trace), v, True)
      \<and> cquery bazelCtx l rt a = (bazelCtx, v, True)
      \<and> (\<forall>ks. cquery (cquery_calls bazelCtx ks) l rt a = (cquery_calls bazelCtx ks, v, True)))
   \<and> (results bazelCtx \<lparr>label = l, requestType = rt, archType = a\<rparr> = None \<longrightarrow>
      cquery_traced (bazelCtx, trace) l rt a =
        ((bazelCtx\<lparr>requests := (requests bazelCtx)(\<lparr>label = l, requestType = rt, archType = a\<rparr> \<mapsto> True),
                   requestMutex := False\<rparr>,
          trace @ [MutexLock,
                   RequestsInsert \<lparr>label = l, requestType = rt, archType = a\<rparr> True,
                   MutexUnlock]),
         [], False)
      \<and> cquery bazelCtx l rt a =
          (bazelCtx\<lparr>requests := (requests bazelCtx)(\<lparr>label = l, requestType = rt, archType = a\<rparr> \<mapsto> True),
                    requestMutex := False\<rparr>, [], False)
      \<and> requests (fst (cquery bazelCtx l rt a)) =
          (requests bazelCtx)(\<lparr>label = l, requestType = rt, archType = a\<rparr> \<mapsto> True)
      \<and> results (fst (cquery bazelCtx l rt a)) = results bazelCtx)"
proof (intro conjI impI allI)
  assume hit: "results bazelCtx \<lparr>label = l, requestType = rt, archType = a\<rparr> = Some v"
  then show "cquery_traced (bazelCtx, trace) l rt a = ((bazelCtx, trace), v, True)"
    by (simp add: cquery_traced_def)
  from hit show "cquery bazelCtx l rt a = (bazelCtx, v, True)"
    by (simp add: cquery_plain)
  fix ks
  from hit have "results (cquery_calls bazelCtx ks) \<lparr>label = l, requestType = rt, archType = a\<rparr> = Some v"
    by (simp add: cquery_calls_results)
  then show "cquery (cquery_calls bazelCtx ks) l rt a = (cquery_calls bazelCtx ks, v, True)"
    by (simp add: cquery_plain)
next
  assume miss: "results bazelCtx \<lparr>label = l, requestType = rt, archType = a\<rparr> = None"
  then show "cquery_traced (bazelCtx, trace) l rt a =
        ((bazelCtx\<lparr>requests := (requests bazelCtx)(\<lparr>label = l, requestType = rt, archType = a\<rparr> \<mapsto> True),
                   requestMutex := False\<rparr>,
          trace @ [MutexLock,
                   RequestsInsert \<lparr>label = l, requestType = rt, archType = a\<rparr> True,
                   MutexUnlock]),
         [], False)"
    by (simp add: cquery_traced_def mutex_Lock_def mutex_Unlock_def requests_insert_def Let_def)
  from miss show "cquery bazelCtx l rt a =
          (bazelCtx\<lparr>requests := (requests bazelCtx)(\<lparr>label = l, requestType = rt, archType = a\<rparr> \<mapsto> True),
                    requestMutex := False\<rparr>, [], False)"
    by (simp add: cquery_plain)
  from miss show "requests (fst (cquery bazelCtx l rt a)) =
          (requests bazelCtx)(\<lparr>label = l, requestType = rt, archType = a\<rparr> \<mapsto> True)"
    by (simp add: cquery_plain)
  show "results (fst (cquery bazelCtx l rt a)) = results bazelCtx"
    by (rule cquery_preserves_results)
qed

theorem cquery_cached_or_queued_witness:
  "cquery_traced (emptyContext\<lparr>results := [\<lparr>label = ''//pkg:foo'', requestType = getOutputFiles,
        archType = Arm64\<rparr> \<mapsto> ''out/foo.so'']\<rparr>, []) ''//pkg:foo'' getOutputFiles Arm64
     = ((emptyContext\<lparr>results := [\<lparr>label = ''//pkg:foo'', requestType = getOutputFiles,
        archType = Arm64\<rparr> \<mapsto> ''out/foo.so'']\<rparr>, []), ''out/foo.so'', True)
   \<and> snd (fst (cquery_traced (emptyContext, []) ''//pkg:foo'' getOutputFiles Arm64))
       = [MutexLock,
          RequestsInsert \<lparr>label = ''//pkg:foo'', requestType = getOutputFiles, archType = Arm64\<rparr> True,
          MutexUnlock]
   \<and> snd (cquery_traced (emptyContext, []) ''//pkg:foo'' getOutputFiles Arm64) = ([], False)
   \<and> requests (fst (cquery emptyContext ''//pkg:foo'' getOutputFiles Arm64))
        \<lparr>label = ''//pkg:foo'', requestType = getOutputFiles, archType = Arm64\<rparr> = Some True"
  using cquery_cached_or_queued [of "emptyContext\<lparr>results := [\<lparr>label = ''//pkg:foo'',
          requestType = getOutputFiles, archType = Arm64\<rparr> \<mapsto> ''out/foo.so'']\<rparr>"
        "''//pkg:foo''" getOutputFiles Arm64 "''out/foo.so''" "[]"]
    cquery_cached_or_queued [of emptyContext "''//pkg:foo''" getOutputFiles Arm64 "[]" "[]"]
  by (simp add: emptyContext_def)

subsection \<open>The query-result pass\<close>

lemma foldl_cqueryResults_line:
  "foldl cqueryResults_line m ls i = Some p \<longleftrightarrow>
     (\<exists>pre l post. ls = pre @ l # post \<and> has_id l i \<and> SplitN_2 l ''>>'' ! 1 = p
         \<and> (\<forall>l'\<in>set post. \<not> has_id l' i))
     \<or> ((\<forall>l\<in>set ls. \<not> has_id l i) \<and> m i = Some p)"
proof (induction ls rule: rev_induct)
  case Nil
  then show ?case by simp
next
  case (snoc x xs)
  show ?case
  proof (cases "has_id x i")
    case True
    then have lhs: "foldl cqueryResults_line m (xs @ [x]) i = Some (SplitN_2 x ''>>'' ! 1)"
      by (simp add: cqueryResults_line_def has_id_def Let_def)
    have "(\<exists>pre l post. xs @ [x] = pre @ l # post \<and> has_id l i \<and> SplitN_2 l ''>>'' ! 1 = p
         \<and> (\<forall>l'\<in>set post. \<not> has_id l' i)) \<longleftrightarrow> SplitN_2 x ''>>'' ! 1 = p"
    proof
      assume "\<exists>pre l post. xs @ [x] = pre @ l # post \<and> has_id l i \<and> SplitN_2 l ''>>'' ! 1 = p
         \<and> (\<forall>l'\<in>set post. \<not> has_id l' i)"
      then obtain pre l post where d: "xs @ [x] = pre @ l # post" "has_id l i"
        "SplitN_2 l ''>>'' ! 1 = p" "\<forall>l'\<in>set post. \<not> has_id l' i" by blast
      have "post = []"
      proof (rule ccontr)
        assume "post \<noteq> []"
        then have "last (pre @ l # post) \<in> set post" by simp
        with d(1) have "x \<in> set post" by (metis last_snoc)
        with d(4) True show False by blast
      qed
      with d show "SplitN_2 x ''>>'' ! 1 = p" by simp
    next
      assume "SplitN_2 x ''>>'' ! 1 = p"
      with True show "\<exists>pre l post. xs @ [x] = pre @ l # post \<and> has_id l i \<and> SplitN_2 l ''>>'' ! 1 = p
         \<and> (\<forall>l'\<in>set post. \<not> has_id l' i)"
        by (intro exI [of _ xs] exI [of _ x] exI [of _ "[]"]) simp
    qed
    with lhs True show ?thesis by auto
  next
    case False
    then have lhs: "foldl cqueryResults_line m (xs @ [x]) i = foldl cqueryResults_line m xs i"
      by (auto simp: cqueryResults_line_def has_id_def Let_def)
    have "(\<exists>pre l post. xs @ [x] = pre @ l # post \<and> has_id l i \<and> SplitN_2 l ''>>'' ! 1 = p
         \<and> (\<forall>l'\<in>set post. \<not> has_id l' i)) \<longleftrightarrow>
       (\<exists>pre l post. xs = pre @ l # post \<and> has_id l i \<and> SplitN_2 l ''>>'' ! 1 = p
         \<and> (\<forall>l'\<in>set post. \<not> has_id l' i))"
    proof
      assume "\<exists>pre l post. xs @ [x] = pre @ l # post \<and> has_id l i \<and> SplitN_2 l ''>>'' ! 1 = p
         \<and> (\<forall>l'\<in>set post. \<not> has_id l' i)"
      then obtain pre l post where d: "xs @ [x] = pre @ l # post" "has_id l i"
        "SplitN_2 l ''>>'' ! 1 = p" "\<forall>l'\<in>set post. \<not> has_id l' i" by blast
      have "post \<noteq> []" using d(1,2) False by auto
      then obtain post' y where post: "post = post' @ [y]"
        by (metis rev_exhaust)
      with d(1) have "xs @ [x] = (pre @ l # post') @ [y]" by simp
      then have "y = x" by (metis last_snoc)
      with post have post: "post = post' @ [x]" by simp
      with d(1) have "xs = pre @ l # post'" by simp
      with d post show "\<exists>pre l post. xs = pre @ l # post \<and> has_id l i \<and> SplitN_2 l ''>>'' ! 1 = p
         \<and> (\<forall>l'\<in>set post. \<not> has_id l' i)" by auto
    next
      assume "\<exists>pre l post. xs = pre @ l # post \<and> has_id l i \<and> SplitN_2 l ''>>'' ! 1 = p
         \<and> (\<forall>l'\<in>set post. \<not> has_id l' i)"
      then obtain pre l post where d: "xs = pre @ l # post" "has_id l i"
        "SplitN_2 l ''>>'' ! 1 = p" "\<forall>l'\<in>set post. \<not> has_id l' i" by blast
      then have "xs @ [x] = pre @ l # (post @ [x])" by simp
      moreover have "\<forall>l'\<in>set (post @ [x]). \<not> has_id l' i" using d(4) False by simp
      ultimately show "\<exists>pre l post. xs @ [x] = pre @ l # post \<and> has_id l i \<and> SplitN_2 l ''>>'' ! 1 = p
         \<and> (\<forall>l'\<in>set post. \<not> has_id l' i)" using d(2,3) by blast
    qed
    with lhs snoc.IH False show ?thesis by auto
  qed
qed

lemma Split_from_nonempty [simp]: "Split_from s c piece \<noteq> []"
  by (induction s arbitrary: piece) auto

lemma Join_Cons: "ys \<noteq> [] \<Longrightarrow> Join (x # ys) sep = x @ sep @ Join ys sep"
  by (cases ys) auto

lemma Join_Split_from: "Join (Split_from s c piece) [c] = piece @ s"
  by (induction s arbitrary: piece) (simp_all add: Join_Cons)

lemma Split_from_no_sep:
  "c \<notin> set piece \<Longrightarrow> l \<in> set (Split_from s c piece) \<Longrightarrow> c \<notin> set l"
proof (induction s arbitrary: piece)
  case Nil
  then show ?case by simp
next
  case (Cons x s)
  show ?case
  proof (cases "x = c")
    case True
    with Cons.prems have "l = piece \<or> l \<in> set (Split_from s c [])" by simp
    with Cons.IH [of "[]"] Cons.prems(1) show ?thesis by auto
  next
    case False
    with Cons.prems have "l \<in> set (Split_from s c (piece @ [x]))" by simp
    moreover from False Cons.prems(1) have "c \<notin> set (piece @ [x])" by simp
    ultimately show ?thesis using Cons.IH by blast
  qed
qed

lemma Join_Split_byte: "Join (Split_byte s c) [c] = s"
  by (simp add: Split_byte_def Join_Split_from)

lemma Split_byte_no_sep: "l \<in> set (Split_byte s c) \<Longrightarrow> c \<notin> set l"
  using Split_from_no_sep [of c "[]" l s] by (simp add: Split_byte_def)

lemma has_id_iff: "has_id l i \<longleftrightarrow> \<not> Contains (i @ ''>'') ''>>'' \<and> HasPrefix l (i @ ''>>'')"
proof -
  have "has_id l i \<longleftrightarrow> (\<exists>p. Contains l ''>>'' \<and> SplitN_2 l ''>>'' ! 0 = i \<and> SplitN_2 l ''>>'' ! 1 = p)"
    by (simp add: has_id_def)
  also have "\<dots> \<longleftrightarrow> (\<exists>p. l = i @ ''>>'' @ p \<and> \<not> Contains (i @ ''>'') ''>>'')"
    by (simp only: line_id_iff)
  also have "\<dots> \<longleftrightarrow> \<not> Contains (i @ ''>'') ''>>'' \<and> HasPrefix l (i @ ''>>'')"
    by (auto simp: HasPrefix_iff)
  finally show ?thesis .
qed

lemma has_id_payload:
  "has_id l i \<and> SplitN_2 l ''>>'' ! 1 = p \<longleftrightarrow> \<not> Contains (i @ ''>'') ''>>'' \<and> l = i @ ''>>'' @ p"
  using line_id_iff [of l i p] by (auto simp: has_id_def)


text \<open>
  Claim C3. The query-result pass cuts the output of the query at the newline
  characters (the lines, joined by newlines, are the output, and no line holds a
  newline), and the map it builds gives the payload \<open>p\<close> to the id \<open>i\<close> exactly when
  some line is \<open>i\<close>, the separator \<open>>>\<close> and \<open>p\<close>, with that separator the first in
  the line (\<open>i\<close> followed by one \<open>>\<close> holds no separator), and no later line begins
  with \<open>i\<close> and the separator. So lines without the separator add nothing, and all
  that follows the first separator of a line is its payload.
\<close>

theorem cqueryResults_spec:
  "Join (Split_byte cqueryOutput newline) [newline] = cqueryOutput
   \<and> (\<forall>l\<in>set (Split_byte cqueryOutput newline). newline \<notin> set l)
   \<and> (cqueryResults cqueryOutput i = Some p \<longleftrightarrow>
        \<not> Contains (i @ ''>'') ''>>''
        \<and> (\<exists>pre post. Split_byte cqueryOutput newline = pre @ (i @ ''>>'' @ p) # post
              \<and> (\<forall>l\<in>set post. \<not> HasPrefix l (i @ ''>>''))))"
proof (intro conjI)
  show "Join (Split_byte cqueryOutput newline) [newline] = cqueryOutput"
    by (rule Join_Split_byte)
  show "\<forall>l\<in>set (Split_byte cqueryOutput newline). newline \<notin> set l"
    using Split_byte_no_sep by blast
  let ?ls = "Split_byte cqueryOutput newline"
  have "cqueryResults cqueryOutput i = Some p \<longleftrightarrow>
      (\<exists>pre l post. ?ls = pre @ l # post \<and> (has_id l i \<and> SplitN_2 l ''>>'' ! 1 = p)
         \<and> (\<forall>l'\<in>set post. \<not> has_id l' i))"
    using foldl_cqueryResults_line [of Map.empty ?ls i p]
    by (simp add: cqueryResults_def)
  also have "\<dots> \<longleftrightarrow> (\<exists>pre l post. ?ls = pre @ l # post
         \<and> (\<not> Contains (i @ ''>'') ''>>'' \<and> l = i @ ''>>'' @ p)
         \<and> (\<forall>l'\<in>set post. \<not> has_id l' i))"
    by (simp only: has_id_payload)
  also have "\<dots> \<longleftrightarrow> (\<exists>pre l post. ?ls = pre @ l # post
         \<and> (\<not> Contains (i @ ''>'') ''>>'' \<and> l = i @ ''>>'' @ p)
         \<and> (\<forall>l'\<in>set post. \<not> (\<not> Contains (i @ ''>'') ''>>'' \<and> HasPrefix l' (i @ ''>>''))))"
    by (simp only: has_id_iff)
  also have "\<dots> \<longleftrightarrow> \<not> Contains (i @ ''>'') ''>>''
        \<and> (\<exists>pre post. ?ls = pre @ (i @ ''>>'' @ p) # post
              \<and> (\<forall>l\<in>set post. \<not> HasPrefix l (i @ ''>>'')))"
    by blast
  finally show "cqueryResults cqueryOutput i = Some p \<longleftrightarrow>
        \<not> Contains (i @ ''>'') ''>>''
        \<and> (\<exists>pre post. ?ls = pre @ (i @ ''>>'' @ p) # post
              \<and> (\<forall>l\<in>set post. \<not> HasPrefix l (i @ ''>>'')))" .
qed

theorem cqueryResults_spec_witness:
  "cqueryResults (''a|x>>p>>q'' @ [newline] @ ''junk'') ''a|x'' = Some ''p>>q''"
proof -
  have sp: "Split_byte (''a|x>>p>>q'' @ [newline] @ ''junk'') newline = [] @ (''a|x'' @ ''>>'' @ ''p>>q'') # [''junk'']"
    by (simp add: newline_def Split_byte_def)
  have nc: "\<not> Contains (''a|x'' @ ''>'') ''>>''"
    by (simp add: Contains_def HasPrefix_def)
  have np: "\<forall>l\<in>set [''junk'']. \<not> HasPrefix l (''a|x'' @ ''>>'')"
    by (simp add: HasPrefix_def)
  from sp nc np show ?thesis
    using cqueryResults_spec [of "''a|x>>p>>q'' @ [newline] @ ''junk''" "''a|x''" "''p>>q''"]
    by blast
qed


subsection \<open>The default architecture\<close>

text \<open>
  Claim C10. For a key whose arch type has the empty name, \<^verbatim>\<open>getArchString\<close> is
  \<open>x86_64\<close>; so, for one label and request type, the key with the empty arch name and a
  key with the arch name \<open>x86_64\<close> have the same cquery id and read the same entry of the
  map of the query output.
\<close>

theorem getArchString_default:
  "Name a = [] \<Longrightarrow> Name a' = ''x86_64'' \<Longrightarrow>
     getArchString \<lparr>label = l, requestType = rt, archType = a\<rparr> = ''x86_64''
     \<and> getCqueryId \<lparr>label = l, requestType = rt, archType = a\<rparr>
         = getCqueryId \<lparr>label = l, requestType = rt, archType = a'\<rparr>
     \<and> cqueryResults out (getCqueryId \<lparr>label = l, requestType = rt, archType = a\<rparr>)
         = cqueryResults out (getCqueryId \<lparr>label = l, requestType = rt, archType = a'\<rparr>)"
  by (simp add: getArchString_def getCqueryId_def)



theorem getArchString_default_witness:
  "getArchString \<lparr>label = ''//pkg:foo'', requestType = getOutputFiles, archType = \<lparr>Name = []\<rparr>\<rparr>
     = ''x86_64''
   \<and> getCqueryId \<lparr>label = ''//pkg:foo'', requestType = getOutputFiles, archType = \<lparr>Name = []\<rparr>\<rparr>
       = ''@sourceroot//pkg:foo|x86_64''"
  using getArchString_default [of "\<lparr>Name = []\<rparr>" X86_64 "''//pkg:foo''" getOutputFiles]
  by (simp add: getCqueryId_def getArchString_def canonicalizeLabel_def HasPrefix_def X86_64_def)

subsection \<open>Construction from the configuration: the settings reported missing\<close>

text \<open>
  What \<^verbatim>\<open>bazelPathsFromConfig\<close> computes: it succeeds when each of the five
  settings has a value of more than one character, and otherwise reports, in the order
  of the tests, every setting whose value has at most one character.
\<close>

lemma bazelPathsFromConfig_missing:
  "bazelPathsFromConfig c =
     (if \<forall>var\<in>set requiredEnvVars. length (Getenv c var) > 1
      then Inr \<lparr>homeDir = Getenv c ''BAZEL_HOME'', bazelPath = Getenv c ''BAZEL_PATH'',
                outputBase = Getenv c ''BAZEL_OUTPUT_BASE'', workspaceDir = Getenv c ''BAZEL_WORKSPACE'',
                buildDir = config_buildDir c, metricsDir = Getenv c ''BAZEL_METRICS_DIR''\<rparr>
      else Inl (''missing required env vars to use bazel: ''
                @ fmt_strings (filter (\<lambda>var. \<not> length (Getenv c var) > 1) requiredEnvVars)))"
  by (simp add: bazelPathsFromConfig_def requiredEnvVars_def Let_def)

text \<open>
  Claim C6. The claim is that construction fails exactly when a required setting is
  absent. With all five settings present and \<^verbatim>\<open>BAZEL_WORKSPACE\<close> set to the
  one-character value \<open>.\<close>, the tests \<^verbatim>\<open>len(...) > 1\<close> make
  \<^verbatim>\<open>bazelPathsFromConfig\<close>, and \<^verbatim>\<open>NewBazelContext\<close> with it, return the error
  that reports \<^verbatim>\<open>BAZEL_WORKSPACE\<close> as missing.
\<close>

theorem bazelPathsFromConfig_one_char_setting:
  "bazelPathsFromConfig exampleConfig = Inl ''missing required env vars to use bazel: [BAZEL_WORKSPACE]''
   \<and> NewBazelContext exampleConfig = Inl ''missing required env vars to use bazel: [BAZEL_WORKSPACE]''
   \<and> absent exampleConfig ''BAZEL_HOME'' = False
   \<and> absent exampleConfig ''BAZEL_PATH'' = False
   \<and> absent exampleConfig ''BAZEL_OUTPUT_BASE'' = False
   \<and> absent exampleConfig ''BAZEL_WORKSPACE'' = False
   \<and> absent exampleConfig ''BAZEL_METRICS_DIR'' = False"
  by (simp add: bazelPathsFromConfig_def NewBazelContext_def exampleConfig_def absent_def fmt_strings_def Let_def)

subsection \<open>Invoking Bazel: results of the requests\<close>

lemma storeResults_None:
  "storeResults cr out e ks c = (c', None) \<Longrightarrow>
     (\<forall>k\<in>set ks. cr (getCqueryId k) \<noteq> None)
     \<and> (\<forall>k. results c' k = (if k \<in> set ks then cr (getCqueryId k) else results c k))
     \<and> requests c' = requests c \<and> paths c' = paths c \<and> buildStatements c' = buildStatements c"
proof (induction ks arbitrary: c)
  case Nil
  then show ?case by simp
next
  case (Cons k ks)
  from Cons.prems obtain v where v: "cr (getCqueryId k) = Some v"
    by (cases "cr (getCqueryId k)") auto
  with Cons.prems have
    "storeResults cr out e ks (c\<lparr>results := (results c)(k \<mapsto> v)\<rparr>) = (c', None)" by simp
  from Cons.IH [OF this] v show ?case by auto
qed

lemma storeResults_missing:
  "\<exists>k\<in>set ks. cr (getCqueryId k) = None \<Longrightarrow>
     \<exists>k\<in>set ks. cr (getCqueryId k) = None
       \<and> snd (storeResults cr out e ks c) =
           Some (''missing result for bazel target '' @ getCqueryId k
                 @ ''. query output: ['' @ out @ ''], cquery err: ['' @ e @ '']'')"
proof (induction ks arbitrary: c)
  case Nil
  then show ?case by simp
next
  case (Cons k ks)
  show ?case
  proof (cases "cr (getCqueryId k)")
    case None
    then show ?thesis by simp
  next
    case (Some v)
    with Cons.prems have "\<exists>k\<in>set ks. cr (getCqueryId k) = None" by auto
    from Cons.IH [OF this, of "c\<lparr>results := (results c)(k \<mapsto> v)\<rparr>"] Some
    show ?thesis by auto
  qed
qed

lemma storeResults_fields:
  "requests (fst (storeResults cr out e ks c)) = requests c
   \<and> paths (fst (storeResults cr out e ks c)) = paths c
   \<and> buildStatements (fst (storeResults cr out e ks c)) = buildStatements c"
  by (induction ks arbitrary: c) (auto split: option.splits)

lemma InvokeBazel_None:
  assumes "InvokeBazel sys run ksBuild archs ksResults (w, journal) c = (wj', c', None)"
  shows "\<exists>w1 wj2 out e c2.
           InvokeBazel_writeFiles sys ksBuild archs w (c\<lparr>results := Map.empty\<rparr>) = (w1, None)
         \<and> InvokeBazel_cquery sys run (w1, journal) (c\<lparr>results := Map.empty\<rparr>) = (wj2, out, e, None)
         \<and> storeResults (cqueryResults out) out e ksResults (c\<lparr>results := Map.empty\<rparr>) = (c2, None)
         \<and> results c' = results c2"
  using assms
  by (auto simp: InvokeBazel_def Let_def split: prod.splits if_splits)

lemma InvokeBazel_reached:
  assumes "InvokeBazel_writeFiles sys ksBuild archs w (c\<lparr>results := Map.empty\<rparr>) = (w1, None)"
      and "InvokeBazel_cquery sys run (w1, journal) (c\<lparr>results := Map.empty\<rparr>) = (wj2, out, e, None)"
      and "snd (storeResults (cqueryResults out) out e ksResults (c\<lparr>results := Map.empty\<rparr>)) = Some msg"
  shows "snd (snd (InvokeBazel sys run ksBuild archs ksResults (w, journal) c)) = Some msg"
  using assms
  by (auto simp: InvokeBazel_def Let_def split: prod.splits if_splits)

lemma InvokeBazel_success:
  assumes "InvokeBazel_writeFiles sys ksBuild archs w (c\<lparr>results := Map.empty\<rparr>) = (w1, None)"
      and "InvokeBazel_cquery sys run (w1, journal) (c\<lparr>results := Map.empty\<rparr>) = ((w2, j2), out, e, None)"
      and "storeResults (cqueryResults out) out e ksResults (c\<lparr>results := Map.empty\<rparr>) = (c2, None)"
      and "run w2 (paths c) AqueryBuildRootRunName aqueryCommand [''--output=jsonproto'']
             = (w3, aout, aerr, None)"
      and "AqueryBuildStatements sys aout = (statements, None)"
      and "run w3 (paths c) BazelBuildPhonyRootRunName buildCommand [] = (w4, bout, berr, None)"
  shows "InvokeBazel sys run ksBuild archs ksResults (w, journal) c
         = ((w4, j2 @ [aqueryCommand, buildCommand]),
            c2\<lparr>buildStatements := statements, requests := Map.empty\<rparr>, None)"
proof -
  from storeResults_None [OF assms(3)] have "paths c2 = paths c" by simp
  with assms show ?thesis
    by (simp add: InvokeBazel_def issueBazelCommand_def)
qed

text \<open>The runs of the examples.\<close>

lemma quietSys_writeFiles: "InvokeBazel_writeFiles quietSys ksBuild archs w c = (w, None)"
  by (simp add: InvokeBazel_writeFiles_def quietSys_def)

lemma cannedMock_cquery:
  "InvokeBazel_cquery quietSys mock_issueBazelCommand (cannedMock, []) c
     = ((cannedMock\<lparr>commands := [cqueryCommand]\<rparr>, [cqueryCommand]),
        ''@sourceroot//pkg:foo|arm64>>out/foo.so'', [], None)"
  by (simp add: InvokeBazel_cquery_def issueBazelCommand_def mock_issueBazelCommand_def
      quietSys_def cannedMock_def)

lemma cannedMock_results:
  "cqueryResults ''@sourceroot//pkg:foo|arm64>>out/foo.so'' = [''@sourceroot//pkg:foo|arm64'' \<mapsto> ''out/foo.so'']"
  by (simp add: cqueryResults_def cqueryResults_line_def newline_def Contains_def HasPrefix_def
      SplitN_2_def Split_byte_def)

lemma getCqueryId_fooArm64: "getCqueryId fooArm64 = ''@sourceroot//pkg:foo|arm64''"
  by (simp add: getCqueryId_def getArchString_def canonicalizeLabel_def fooArm64_def Arm64_def
      HasPrefix_def)

lemma commands_distinct:
  "aqueryCommand \<noteq> cqueryCommand" "buildCommand \<noteq> cqueryCommand" "buildCommand \<noteq> aqueryCommand"
  by (simp_all add: aqueryCommand_def cqueryCommand_def buildCommand_def)

lemma cannedMock_run:
  "InvokeBazel quietSys mock_issueBazelCommand [fooArm64] [''arm64''] [fooArm64] (cannedMock, [])
     (emptyContext\<lparr>requests := [fooArm64 \<mapsto> True]\<rparr>)
   = ((cannedMock\<lparr>commands := [cqueryCommand, aqueryCommand, buildCommand]\<rparr>,
       [cqueryCommand, aqueryCommand, buildCommand]),
      emptyContext\<lparr>results := [fooArm64 \<mapsto> ''out/foo.so'']\<rparr>, None)"
proof -
  let ?c = "emptyContext\<lparr>requests := [fooArm64 \<mapsto> True]\<rparr>"
  have st: "storeResults (cqueryResults ''@sourceroot//pkg:foo|arm64>>out/foo.so'')
       ''@sourceroot//pkg:foo|arm64>>out/foo.so'' [] [fooArm64] (?c\<lparr>results := Map.empty\<rparr>)
     = (?c\<lparr>results := [fooArm64 \<mapsto> ''out/foo.so'']\<rparr>, None)"
    by (simp add: cannedMock_results getCqueryId_fooArm64)
  have aq: "mock_issueBazelCommand (cannedMock\<lparr>commands := [cqueryCommand]\<rparr>) (paths ?c)
      AqueryBuildRootRunName aqueryCommand [''--output=jsonproto'']
     = (cannedMock\<lparr>commands := [cqueryCommand, aqueryCommand]\<rparr>, [], [], None)"
    by (simp add: mock_issueBazelCommand_def cannedMock_def commands_distinct)
  have ps: "AqueryBuildStatements (quietSys :: mockBazelRunner collaborators) [] = ([], None)"
    by (simp add: quietSys_def)
  have bd: "mock_issueBazelCommand (cannedMock\<lparr>commands := [cqueryCommand, aqueryCommand]\<rparr>) (paths ?c)
      BazelBuildPhonyRootRunName buildCommand []
     = (cannedMock\<lparr>commands := [cqueryCommand, aqueryCommand, buildCommand]\<rparr>, [], [], None)"
    by (simp add: mock_issueBazelCommand_def cannedMock_def commands_distinct)
  from InvokeBazel_success [OF quietSys_writeFiles cannedMock_cquery st aq ps bd]
  show ?thesis by (simp add: emptyContext_def)
qed

lemma silentMock_cquery:
  "InvokeBazel_cquery quietSys mock_issueBazelCommand (silentMock, []) c
     = ((silentMock\<lparr>commands := [cqueryCommand]\<rparr>, [cqueryCommand]), [], [], None)"
  by (simp add: InvokeBazel_cquery_def issueBazelCommand_def mock_issueBazelCommand_def
      quietSys_def silentMock_def)

lemma cqueryResults_empty: "cqueryResults [] = Map.empty"
  by (simp add: cqueryResults_def cqueryResults_line_def Split_byte_def Contains_def)

lemma silentMock_run:
  "InvokeBazel quietSys mock_issueBazelCommand [fooArm64] [''arm64''] [fooArm64]
       (silentMock, []) (emptyContext\<lparr>requests := [fooArm64 \<mapsto> True]\<rparr>)
      = ((silentMock\<lparr>commands := [cqueryCommand]\<rparr>, [cqueryCommand]),
         emptyContext\<lparr>requests := [fooArm64 \<mapsto> True]\<rparr>,
         Some ''missing result for bazel target @sourceroot//pkg:foo|arm64. query output: [], cquery err: []'')"
  by (simp add: InvokeBazel_def quietSys_writeFiles silentMock_cquery cqueryResults_empty
      getCqueryId_fooArm64 emptyContext_def)

text \<open>
  Claim C2. Let the range that stores the results visit the requests in any order. When
  \<^verbatim>\<open>InvokeBazel\<close> returns \<^verbatim>\<open>nil\<close>, every key that was in the requests is in the
  results. When the invocation reaches the query-result pass (the generated files and
  \<^verbatim>\<open>cquery.out\<close> are written) with the query output \<open>cqueryOutput\<close>: on success the
  result of every requested key is the entry of its cquery id in the parsed output; and
  if the cquery id of some requested key is absent from the parsed output,
  \<^verbatim>\<open>InvokeBazel\<close> returns the error \<open>missing result for bazel target\<close> that names the
  cquery id of a requested key that is absent.
\<close>

theorem InvokeBazel_completeness:
  assumes rng: "range_of (requests bazelCtx) ksResults"
      and inv: "InvokeBazel sys run ksBuild archs ksResults (w, journal) bazelCtx = (wj', bazelCtx', err)"
  shows "(err = None \<longrightarrow> (\<forall>k\<in>dom (requests bazelCtx). results bazelCtx' k \<noteq> None))
       \<and> (\<forall>w1 wj2 cqueryOutput cqueryErr.
            InvokeBazel_writeFiles sys ksBuild archs w (bazelCtx\<lparr>results := Map.empty\<rparr>) = (w1, None)
            \<and> InvokeBazel_cquery sys run (w1, journal) (bazelCtx\<lparr>results := Map.empty\<rparr>)
                = (wj2, cqueryOutput, cqueryErr, None)
            \<longrightarrow> (err = None \<longrightarrow>
                   (\<forall>k\<in>dom (requests bazelCtx).
                      results bazelCtx' k = cqueryResults cqueryOutput (getCqueryId k)))
                \<and> ((\<exists>k\<in>dom (requests bazelCtx). cqueryResults cqueryOutput (getCqueryId k) = None)
                     \<longrightarrow> (\<exists>k\<in>dom (requests bazelCtx).
                            cqueryResults cqueryOutput (getCqueryId k) = None
                            \<and> err = Some (''missing result for bazel target '' @ getCqueryId k
                                  @ ''. query output: ['' @ cqueryOutput
                                  @ ''], cquery err: ['' @ cqueryErr @ '']''))))"
proof (intro conjI allI impI)
  assume "err = None"
  with inv obtain w1 wj2 out e c2 where
    st: "storeResults (cqueryResults out) out e ksResults (bazelCtx\<lparr>results := Map.empty\<rparr>) = (c2, None)"
    and res: "results bazelCtx' = results c2"
    using InvokeBazel_None [of sys run ksBuild archs ksResults w journal bazelCtx wj' bazelCtx']
    by blast
  from storeResults_None [OF st] res rng
  show "\<forall>k\<in>dom (requests bazelCtx). results bazelCtx' k \<noteq> None"
    by (simp add: range_of_def)
next
  fix w1 wj2 cqueryOutput cqueryErr
  assume reach: "InvokeBazel_writeFiles sys ksBuild archs w (bazelCtx\<lparr>results := Map.empty\<rparr>) = (w1, None)
            \<and> InvokeBazel_cquery sys run (w1, journal) (bazelCtx\<lparr>results := Map.empty\<rparr>)
                = (wj2, cqueryOutput, cqueryErr, None)"
  {
    assume "err = None"
    with inv obtain w1' wj2' out e c2 where
      wf: "InvokeBazel_writeFiles sys ksBuild archs w (bazelCtx\<lparr>results := Map.empty\<rparr>) = (w1', None)"
      and cq: "InvokeBazel_cquery sys run (w1', journal) (bazelCtx\<lparr>results := Map.empty\<rparr>) = (wj2', out, e, None)"
      and st: "storeResults (cqueryResults out) out e ksResults (bazelCtx\<lparr>results := Map.empty\<rparr>) = (c2, None)"
      and res: "results bazelCtx' = results c2"
      using InvokeBazel_None [of sys run ksBuild archs ksResults w journal bazelCtx wj' bazelCtx']
      by blast
    from wf reach have "w1' = w1" by simp
    with cq reach have "out = cqueryOutput" by simp
    with storeResults_None [OF st] res rng
    show "\<forall>k\<in>dom (requests bazelCtx). results bazelCtx' k = cqueryResults cqueryOutput (getCqueryId k)"
      by (simp add: range_of_def)
  }
  {
    assume "\<exists>k\<in>dom (requests bazelCtx). cqueryResults cqueryOutput (getCqueryId k) = None"
    with rng have "\<exists>k\<in>set ksResults. cqueryResults cqueryOutput (getCqueryId k) = None"
      by (simp add: range_of_def)
    from storeResults_missing [OF this, of cqueryOutput cqueryErr "bazelCtx\<lparr>results := Map.empty\<rparr>"]
    obtain k where k: "k \<in> set ksResults" "cqueryResults cqueryOutput (getCqueryId k) = None"
      "snd (storeResults (cqueryResults cqueryOutput) cqueryOutput cqueryErr ksResults
             (bazelCtx\<lparr>results := Map.empty\<rparr>)) =
         Some (''missing result for bazel target '' @ getCqueryId k
               @ ''. query output: ['' @ cqueryOutput @ ''], cquery err: ['' @ cqueryErr @ '']'')"
      by blast
    from reach k(3) inv have "err = Some (''missing result for bazel target '' @ getCqueryId k
               @ ''. query output: ['' @ cqueryOutput @ ''], cquery err: ['' @ cqueryErr @ '']'')"
      using InvokeBazel_reached [of sys ksBuild archs w bazelCtx w1 run journal wj2 cqueryOutput cqueryErr ksResults]
      by simp
    with k(1,2) rng
    show "\<exists>k\<in>dom (requests bazelCtx).
            cqueryResults cqueryOutput (getCqueryId k) = None
            \<and> err = Some (''missing result for bazel target '' @ getCqueryId k
                  @ ''. query output: ['' @ cqueryOutput
                  @ ''], cquery err: ['' @ cqueryErr @ '']'')"
      by (auto simp: range_of_def)
  }
qed

theorem InvokeBazel_completeness_witness:
  "results (fst (snd (InvokeBazel quietSys mock_issueBazelCommand [fooArm64] [''arm64''] [fooArm64]
       (cannedMock, []) (emptyContext\<lparr>requests := [fooArm64 \<mapsto> True]\<rparr>)))) fooArm64
     = Some ''out/foo.so''
   \<and> snd (snd (InvokeBazel quietSys mock_issueBazelCommand [fooArm64] [''arm64''] [fooArm64]
       (silentMock, []) (emptyContext\<lparr>requests := [fooArm64 \<mapsto> True]\<rparr>)))
     = Some ''missing result for bazel target @sourceroot//pkg:foo|arm64. query output: [], cquery err: []''"
proof -
  let ?c = "emptyContext\<lparr>requests := [fooArm64 \<mapsto> True]\<rparr>"
  have rng: "range_of (requests ?c) [fooArm64]"
    by (simp add: range_of_def)
  from InvokeBazel_completeness [OF rng cannedMock_run]
  have "results (emptyContext\<lparr>results := [fooArm64 \<mapsto> ''out/foo.so'']\<rparr>) fooArm64
          = cqueryResults ''@sourceroot//pkg:foo|arm64>>out/foo.so'' (getCqueryId fooArm64)"
    using quietSys_writeFiles [of "[fooArm64]" "[''arm64'']" cannedMock "?c\<lparr>results := Map.empty\<rparr>"]
      cannedMock_cquery [of "?c\<lparr>results := Map.empty\<rparr>"]
    by simp
  then have ok: "results (fst (snd (InvokeBazel quietSys mock_issueBazelCommand [fooArm64] [''arm64'']
       [fooArm64] (cannedMock, []) ?c))) fooArm64 = Some ''out/foo.so''"
    by (simp add: cannedMock_run cannedMock_results getCqueryId_fooArm64)
  obtain wj' c' err where inv: "InvokeBazel quietSys mock_issueBazelCommand [fooArm64] [''arm64'']
       [fooArm64] (silentMock, []) ?c = (wj', c', err)"
    by (cases "InvokeBazel quietSys mock_issueBazelCommand [fooArm64] [''arm64'']
       [fooArm64] (silentMock, []) ?c") auto
  have absent_id: "\<exists>k\<in>dom (requests ?c). cqueryResults [] (getCqueryId k) = None"
    by (simp add: cqueryResults_empty)
  from InvokeBazel_completeness [OF rng inv]
    quietSys_writeFiles [of "[fooArm64]" "[''arm64'']" silentMock "?c\<lparr>results := Map.empty\<rparr>"]
    silentMock_cquery [of "?c\<lparr>results := Map.empty\<rparr>"] absent_id
  have "\<exists>k\<in>dom (requests ?c). cqueryResults [] (getCqueryId k) = None
          \<and> err = Some (''missing result for bazel target '' @ getCqueryId k
                @ ''. query output: ['' @ [] @ ''], cquery err: ['' @ [] @ '']'')"
    by blast
  then have "err = Some ''missing result for bazel target @sourceroot//pkg:foo|arm64. query output: [], cquery err: []''"
    by (simp add: getCqueryId_fooArm64)
  with inv ok show ?thesis by simp
qed

subsection \<open>Invoking Bazel: the error of the cquery command\<close>

lemma cqueryFails_cquery_error:
  "builtin_issueBazelCommand cqueryFailsSys () examplePaths CqueryBuildRootRunName cqueryCommand
      [''--output=starlark'', ''--starlark:file='' @ cqueryFileRelpath cqueryFailsSys emptyContext]
   = ((), [], ''ERROR: analysis failed'',
      Some ''bazel command failed. command: [/usr/bin/bazel --output_base=/out/base cquery kind(rule, deps(//:buildroot)) --package_path=%workspace%/out/soong/bazel --profile=/out/metrics/profile --platforms=@sourceroot//build/bazel/platforms:android_x86_64 --extra_toolchains=@sourceroot//prebuilts/clang/host/linux-x86:all --host_platform=@sourceroot//build/bazel/platforms:linux_x86_64 --experimental_repository_disable_download --output=starlark --starlark:file=out/soong/bazel/buildroot.cquery], env: [[PATH=/usr/bin HOME=/home/bazel PWD=/proc/self/cwd BAZEL_DO_NOT_DETECT_CPP_TOOLCHAIN=1]], error [ERROR: analysis failed]'')"
  by (simp add: builtin_issueBazelCommand_def cqueryFailsSys_def quietSys_def exec_Command_def
      Cmd_String_def fmt_strings_def intermediatesDir_def pwdPrefix_def canonicalizeLabel_def
      HasPrefix_def cqueryCommand_def buildrootLabel_def emptyContext_def examplePaths_def
      cqueryFileRelpath_def)

lemma cqueryFails_others:
  "command cmd \<noteq> ''cquery'' \<Longrightarrow>
   builtin_issueBazelCommand cqueryFailsSys () ps runName cmd extraFlags = ((), [], [], None)"
  by (simp add: builtin_issueBazelCommand_def cqueryFailsSys_def quietSys_def exec_Command_def)

text \<open>
  Claim C8. The claim is that \<^verbatim>\<open>InvokeBazel\<close> returns an error whenever its cquery
  invocation does. Here the Bazel process exits with an error for \<^verbatim>\<open>cquery\<close>, and
  \<^verbatim>\<open>issueBazelCommand\<close> of the builtin runner returns the error carrying the command
  line, the environment and the captured standard error; no request is queued, and the
  other commands succeed. \<^verbatim>\<open>InvokeBazel\<close> assigns the error of writing
  \<^verbatim>\<open>cquery.out\<close> over the error of the command, goes on to issue \<^verbatim>\<open>aquery\<close> and
  \<^verbatim>\<open>build\<close>, and returns \<^verbatim>\<open>nil\<close>.
\<close>

theorem InvokeBazel_cquery_error_lost:
  "snd (snd (snd (builtin_issueBazelCommand cqueryFailsSys () examplePaths CqueryBuildRootRunName
      cqueryCommand
      [''--output=starlark'', ''--starlark:file='' @ cqueryFileRelpath cqueryFailsSys emptyContext])))
   = Some ''bazel command failed. command: [/usr/bin/bazel --output_base=/out/base cquery kind(rule, deps(//:buildroot)) --package_path=%workspace%/out/soong/bazel --profile=/out/metrics/profile --platforms=@sourceroot//build/bazel/platforms:android_x86_64 --extra_toolchains=@sourceroot//prebuilts/clang/host/linux-x86:all --host_platform=@sourceroot//build/bazel/platforms:linux_x86_64 --experimental_repository_disable_download --output=starlark --starlark:file=out/soong/bazel/buildroot.cquery], env: [[PATH=/usr/bin HOME=/home/bazel PWD=/proc/self/cwd BAZEL_DO_NOT_DETECT_CPP_TOOLCHAIN=1]], error [ERROR: analysis failed]''
   \<and> InvokeBazel cqueryFailsSys (builtin_issueBazelCommand cqueryFailsSys) [] [] [] ((), []) emptyContext
       = (((), [cqueryCommand, aqueryCommand, buildCommand]), emptyContext, None)"
proof -
  have wf: "InvokeBazel_writeFiles cqueryFailsSys [] [] () (emptyContext\<lparr>results := Map.empty\<rparr>) = ((), None)"
    by (simp add: InvokeBazel_writeFiles_def cqueryFailsSys_def quietSys_def)
  have cq: "InvokeBazel_cquery cqueryFailsSys (builtin_issueBazelCommand cqueryFailsSys) ((), [])
       (emptyContext\<lparr>results := Map.empty\<rparr>)
     = (((), [cqueryCommand]), [], ''ERROR: analysis failed'', None)"
    using cqueryFails_cquery_error
    by (simp add: InvokeBazel_cquery_def issueBazelCommand_def emptyContext_def cqueryFileRelpath_def
        cqueryFailsSys_def quietSys_def)
  have st: "storeResults (cqueryResults []) [] ''ERROR: analysis failed'' []
       (emptyContext\<lparr>results := Map.empty\<rparr>) = (emptyContext\<lparr>results := Map.empty\<rparr>, None)"
    by simp
  have aq: "builtin_issueBazelCommand cqueryFailsSys () (paths emptyContext) AqueryBuildRootRunName
       aqueryCommand [''--output=jsonproto''] = ((), [], [], None)"
    by (rule cqueryFails_others) (simp add: aqueryCommand_def)
  have ps: "AqueryBuildStatements cqueryFailsSys [] = ([], None)"
    by (simp add: cqueryFailsSys_def quietSys_def)
  have bd: "builtin_issueBazelCommand cqueryFailsSys () (paths emptyContext) BazelBuildPhonyRootRunName
       buildCommand [] = ((), [], [], None)"
    by (rule cqueryFails_others) (simp add: buildCommand_def)
  from InvokeBazel_success [OF wf cq st aq ps bd]
  have "InvokeBazel cqueryFailsSys (builtin_issueBazelCommand cqueryFailsSys) [] [] [] ((), []) emptyContext
       = (((), [cqueryCommand, aqueryCommand, buildCommand]), emptyContext, None)"
    by (simp add: emptyContext_def)
  with cqueryFails_cquery_error show ?thesis by simp
qed

subsection \<open>How often the commands are issued\<close>

lemma InvokeBazel_journal:
  assumes "InvokeBazel sys run ksBuild archs ksResults (w, journal) c = ((w', journal'), c', err)"
  shows "(err = None \<longrightarrow> journal' = journal @ [cqueryCommand, aqueryCommand, buildCommand])
       \<and> journal' \<in> {journal, journal @ [cqueryCommand], journal @ [cqueryCommand, aqueryCommand],
                       journal @ [cqueryCommand, aqueryCommand, buildCommand]}"
  using assms
  by (auto simp: InvokeBazel_def InvokeBazel_cquery_def issueBazelCommand_def Let_def
      split: prod.splits if_splits)

lemma issued_commands [simp]:
  "issued ''cquery'' [] = 0" "issued ''aquery'' [] = 0"
  "issued ''cquery'' [cqueryCommand] = 1" "issued ''aquery'' [cqueryCommand] = 0"
  "issued ''cquery'' [cqueryCommand, aqueryCommand] = 1"
  "issued ''aquery'' [cqueryCommand, aqueryCommand] = 1"
  "issued ''cquery'' [cqueryCommand, aqueryCommand, buildCommand] = 1"
  "issued ''aquery'' [cqueryCommand, aqueryCommand, buildCommand] = 1"
  by (simp_all add: issued_def cqueryCommand_def aqueryCommand_def buildCommand_def)

lemma InvokeBazel_issued:
  assumes "InvokeBazel sys run ksBuild archs ksResults (w, journal) c = (wj', c', err)"
  shows "\<exists>cmds. snd wj' = journal @ cmds
           \<and> issued ''cquery'' cmds \<le> 1 \<and> issued ''aquery'' cmds \<le> 1
           \<and> (err = None \<longrightarrow> cmds = [cqueryCommand, aqueryCommand, buildCommand])"
proof -
  obtain w' journal' where wj: "wj' = (w', journal')" by (cases wj')
  from InvokeBazel_journal [OF assms [unfolded wj]]
  have e: "err = None \<longrightarrow> journal' = journal @ [cqueryCommand, aqueryCommand, buildCommand]"
    and j: "journal' \<in> {journal, journal @ [cqueryCommand], journal @ [cqueryCommand, aqueryCommand],
                       journal @ [cqueryCommand, aqueryCommand, buildCommand]}" by blast+
  from j consider "journal' = journal @ []" | "journal' = journal @ [cqueryCommand]"
    | "journal' = journal @ [cqueryCommand, aqueryCommand]"
    | "journal' = journal @ [cqueryCommand, aqueryCommand, buildCommand]" by auto
  then show ?thesis
  proof cases
    case 1
    with e wj show ?thesis by (intro exI [of _ "[]"]) auto
  next
    case 2
    with e wj show ?thesis by (intro exI [of _ "[cqueryCommand]"]) auto
  next
    case 3
    with e wj show ?thesis by (intro exI [of _ "[cqueryCommand, aqueryCommand]"]) auto
  next
    case 4
    with e wj show ?thesis by (intro exI [of _ "[cqueryCommand, aqueryCommand, buildCommand]"]) auto
  qed
qed

lemma cquery_calls_fooArm64:
  "cquery_calls emptyContext [fooArm64] = emptyContext\<lparr>requests := [fooArm64 \<mapsto> True]\<rparr>"
  by (simp add: cquery_plain emptyContext_def fooArm64_def)

lemma readOnlySys_writeFiles:
  "InvokeBazel_writeFiles readOnlySys ksBuild archs w c = (w, Some ''read-only file system'')"
  by (simp add: InvokeBazel_writeFiles_def readOnlySys_def quietSys_def)

text \<open>
  Claim C9, as stated, says that one execution of \<^verbatim>\<open>InvokeBazel\<close> issues exactly one
  cquery command and exactly one aquery command. An execution that cannot write its
  generated files returns the error of the write and issues no command; an execution
  whose query output lacks a requested id issues the cquery command, returns the
  missing-result error and issues no aquery command.
\<close>

theorem InvokeBazel_exactly_one_counterexample:
  "issued ''cquery'' (snd (fst (InvokeBazel readOnlySys mock_issueBazelCommand [] [] []
       (silentMock, []) emptyContext))) = 0
   \<and> snd (snd (InvokeBazel readOnlySys mock_issueBazelCommand [] [] []
       (silentMock, []) emptyContext)) = Some ''read-only file system''
   \<and> issued ''cquery'' (snd (fst (InvokeBazel quietSys mock_issueBazelCommand [fooArm64] [''arm64'']
       [fooArm64] (silentMock, []) (emptyContext\<lparr>requests := [fooArm64 \<mapsto> True]\<rparr>)))) = 1
   \<and> issued ''aquery'' (snd (fst (InvokeBazel quietSys mock_issueBazelCommand [fooArm64] [''arm64'']
       [fooArm64] (silentMock, []) (emptyContext\<lparr>requests := [fooArm64 \<mapsto> True]\<rparr>)))) = 0
   \<and> snd (snd (InvokeBazel quietSys mock_issueBazelCommand [fooArm64] [''arm64'']
       [fooArm64] (silentMock, []) (emptyContext\<lparr>requests := [fooArm64 \<mapsto> True]\<rparr>)))
       = Some ''missing result for bazel target @sourceroot//pkg:foo|arm64. query output: [], cquery err: []''"
proof -
  have a: "InvokeBazel readOnlySys mock_issueBazelCommand [] [] [] (silentMock, []) emptyContext
      = ((silentMock, []), emptyContext\<lparr>results := Map.empty\<rparr>, Some ''read-only file system'')"
    by (simp add: InvokeBazel_def readOnlySys_writeFiles)
  show ?thesis by (simp add: a silentMock_run)
qed

text \<open>
  Claim C9, amended. Whatever the two analysis passes request: one execution of
  \<^verbatim>\<open>InvokeBazel\<close> issues at most one cquery command and at most one aquery command,
  and when it returns \<^verbatim>\<open>nil\<close> it has issued exactly one of each (cquery, aquery, then
  the build of \<open>//:phonyroot\<close>); \<^verbatim>\<open>runMixedModeBuild\<close> leaves the world and the
  journal as one execution of \<^verbatim>\<open>InvokeBazel\<close> after the first pass leaves them, so
  across the run each of the two commands is issued at most once, and exactly once when
  the run completes.
\<close>

theorem runMixedModeBuild_at_most_once:
  "(\<exists>cmds. snd (fst (InvokeBazel sys run ksBuild archs ksResults (w, journal) bazelCtx)) = journal @ cmds
       \<and> issued ''cquery'' cmds \<le> 1 \<and> issued ''aquery'' cmds \<le> 1
       \<and> (snd (snd (InvokeBazel sys run ksBuild archs ksResults (w, journal) bazelCtx)) = None
            \<longrightarrow> cmds = [cqueryCommand, aqueryCommand, buildCommand]
                \<and> issued ''cquery'' cmds = 1 \<and> issued ''aquery'' cmds = 1))
   \<and> fst (runMixedModeBuild sys run ksBuild archs ksResults firstPass additionalRunErr secondPass
            (w, journal) bazelCtx)
       = fst (InvokeBazel sys run ksBuild archs ksResults (w, journal) (cquery_calls bazelCtx firstPass))
   \<and> (\<exists>cmds. snd (fst (runMixedModeBuild sys run ksBuild archs ksResults firstPass additionalRunErr
                         secondPass (w, journal) bazelCtx)) = journal @ cmds
       \<and> issued ''cquery'' cmds \<le> 1 \<and> issued ''aquery'' cmds \<le> 1
       \<and> (snd (snd (runMixedModeBuild sys run ksBuild archs ksResults firstPass additionalRunErr
                         secondPass (w, journal) bazelCtx)) = Completed
            \<longrightarrow> cmds = [cqueryCommand, aqueryCommand, buildCommand]))"
proof (intro conjI)
  obtain wj' c' err where inv:
    "InvokeBazel sys run ksBuild archs ksResults (w, journal) bazelCtx = (wj', c', err)"
    by (cases "InvokeBazel sys run ksBuild archs ksResults (w, journal) bazelCtx") auto
  from InvokeBazel_issued [OF inv] obtain cmds where
    "snd wj' = journal @ cmds" "issued ''cquery'' cmds \<le> 1" "issued ''aquery'' cmds \<le> 1"
    "err = None \<longrightarrow> cmds = [cqueryCommand, aqueryCommand, buildCommand]" by blast
  then show "\<exists>cmds. snd (fst (InvokeBazel sys run ksBuild archs ksResults (w, journal) bazelCtx)) = journal @ cmds
       \<and> issued ''cquery'' cmds \<le> 1 \<and> issued ''aquery'' cmds \<le> 1
       \<and> (snd (snd (InvokeBazel sys run ksBuild archs ksResults (w, journal) bazelCtx)) = None
            \<longrightarrow> cmds = [cqueryCommand, aqueryCommand, buildCommand]
                \<and> issued ''cquery'' cmds = 1 \<and> issued ''aquery'' cmds = 1)"
    by (intro exI [of _ cmds]) (auto simp: inv)
next
  show "fst (runMixedModeBuild sys run ksBuild archs ksResults firstPass additionalRunErr secondPass
            (w, journal) bazelCtx)
       = fst (InvokeBazel sys run ksBuild archs ksResults (w, journal) (cquery_calls bazelCtx firstPass))"
    by (simp add: runMixedModeBuild_def Let_def split: prod.splits)
next
  let ?c1 = "cquery_calls bazelCtx firstPass"
  obtain wj' c' err where inv:
    "InvokeBazel sys run ksBuild archs ksResults (w, journal) ?c1 = (wj', c', err)"
    by (cases "InvokeBazel sys run ksBuild archs ksResults (w, journal) ?c1") auto
  from InvokeBazel_issued [OF inv] obtain cmds where c:
    "snd wj' = journal @ cmds" "issued ''cquery'' cmds \<le> 1" "issued ''aquery'' cmds \<le> 1"
    "err = None \<longrightarrow> cmds = [cqueryCommand, aqueryCommand, buildCommand]" by blast
  have r: "fst (runMixedModeBuild sys run ksBuild archs ksResults firstPass additionalRunErr
                         secondPass (w, journal) bazelCtx) = wj'"
    using inv by (simp add: runMixedModeBuild_def Let_def)
  have o: "snd (snd (runMixedModeBuild sys run ksBuild archs ksResults firstPass additionalRunErr
                         secondPass (w, journal) bazelCtx)) = Completed \<longrightarrow> err = None"
    using inv by (simp add: runMixedModeBuild_def Let_def)
  from c r o show "\<exists>cmds. snd (fst (runMixedModeBuild sys run ksBuild archs ksResults firstPass additionalRunErr
                         secondPass (w, journal) bazelCtx)) = journal @ cmds
       \<and> issued ''cquery'' cmds \<le> 1 \<and> issued ''aquery'' cmds \<le> 1
       \<and> (snd (snd (runMixedModeBuild sys run ksBuild archs ksResults firstPass additionalRunErr
                         secondPass (w, journal) bazelCtx)) = Completed
            \<longrightarrow> cmds = [cqueryCommand, aqueryCommand, buildCommand])"
    by (intro exI [of _ cmds]) auto
qed

theorem runMixedModeBuild_at_most_once_witness:
  "snd (fst (runMixedModeBuild quietSys mock_issueBazelCommand [fooArm64] [''arm64''] [fooArm64]
       [fooArm64] None [fooArm64, fooArm64] (cannedMock, []) emptyContext))
     = [cqueryCommand, aqueryCommand, buildCommand]"
proof -
  have "snd (snd (runMixedModeBuild quietSys mock_issueBazelCommand [fooArm64] [''arm64''] [fooArm64]
       [fooArm64] None [fooArm64, fooArm64] (cannedMock, []) emptyContext)) = Completed"
    by (simp only: runMixedModeBuild_def Let_def cquery_calls_fooArm64 cannedMock_run) simp
  with runMixedModeBuild_at_most_once [of quietSys mock_issueBazelCommand "[fooArm64]" "[''arm64'']"
      "[fooArm64]" cannedMock "[]" emptyContext "[fooArm64]" None "[fooArm64, fooArm64]"]
  show ?thesis by auto
qed

subsection \<open>The action splicer\<close>

lemma foldl_cmd_ImplicitOutput:
  "foldl (\<lambda>r p. cmd_ImplicitOutput r (f p)) r ps
     = r\<lparr>rule_ImplicitOutputs := rule_ImplicitOutputs r @ map f ps\<rparr>"
  by (induction ps arbitrary: r) (simp_all add: cmd_ImplicitOutput_def)

lemma foldl_cmd_Implicit:
  "foldl (\<lambda>r p. cmd_Implicit r (f p)) r ps
     = r\<lparr>rule_Implicits := rule_Implicits r @ map f ps\<rparr>"
  by (induction ps arbitrary: r) (simp_all add: cmd_Implicit_def)

lemma registerBuildStatement_empty:
  "Command s = [] \<Longrightarrow>
     registerBuildStatement env ob ctx i s = (ctx, Some (unhandled_build_statement s))"
  by (simp add: registerBuildStatement_def)

lemma registerBuildStatement_nonempty:
  "Command s \<noteq> [] \<Longrightarrow>
     registerBuildStatement env ob ctx i s
       = (ctx\<lparr>builtRules := builtRules ctx @ [spec_nativeRule env ob i s]\<rparr>, None)"
  by (cases "Depfile s")
     (simp_all add: registerBuildStatement_def spec_nativeRule_def foldl_cmd_ImplicitOutput
        foldl_cmd_Implicit NewRuleBuilder_def cmd_Text_def cmd_ImplicitDepFile_def Restat_def
        Build_def Let_def)

text \<open>
  The loop registers the rules of the statements before the first one with an empty
  command, and panics with that one.
\<close>

lemma registerBuildStatements_char:
  "registerBuildStatements env ob i stmts ctx =
     (ctx\<lparr>builtRules := builtRules ctx
          @ map (\<lambda>(j, s). spec_nativeRule env ob j s)
              (enumerate i (takeWhile (\<lambda>s. Command s \<noteq> []) stmts))\<rparr>,
      case dropWhile (\<lambda>s. Command s \<noteq> []) stmts of
        [] \<Rightarrow> None
      | s # rest \<Rightarrow> Some (unhandled_build_statement s))"
proof (induction stmts arbitrary: i ctx)
  case Nil
  then show ?case by simp
next
  case (Cons s stmts)
  show ?case
  proof (cases "Command s = []")
    case True
    then show ?thesis by (simp add: registerBuildStatement_empty)
  next
    case False
    then show ?thesis by (simp add: registerBuildStatement_nonempty Cons.IH)
  qed
qed

lemma foldl_AddNinjaFileDeps_builtRules:
  "builtRules (foldl AddNinjaFileDeps ctx files) = builtRules ctx"
  by (induction files arbitrary: ctx) (simp_all add: AddNinjaFileDeps_def)

lemma GenerateBuildActions_char:
  "builtRules (fst (GenerateBuildActions env bc ctx))
     = builtRules ctx @ map (\<lambda>(j, s). spec_nativeRule env (OutputBase bc) j s)
         (enumerate 0 (takeWhile (\<lambda>s. Command s \<noteq> []) (BuildStatementsToRegister bc)))
   \<and> snd (GenerateBuildActions env bc ctx)
     = (case dropWhile (\<lambda>s. Command s \<noteq> []) (BuildStatementsToRegister bc) of
          [] \<Rightarrow> None
        | s # rest \<Rightarrow> Some (unhandled_build_statement s))"
proof (cases "BazelEnabled bc")
  case False
  then have "bc = Noop" by (cases bc) auto
  then show ?thesis by (simp add: GenerateBuildActions_def)
next
  case True
  then show ?thesis
    by (simp add: GenerateBuildActions_def Let_def registerBuildStatements_char
        foldl_AddNinjaFileDeps_builtRules AddNinjaFileDeps_def Errorf_def
        split: prod.splits option.splits)
qed

lemma decimal_0: "decimal 0 = ''0''"
  by (simp add: decimal.simps digit_def)

text \<open>
  Claim C4. For a build statement whose command is empty, the body of the loop of the
  splicer panics with that statement and registers nothing. When the list returned by
  \<^verbatim>\<open>BuildStatementsToRegister\<close> holds a statement with an empty command,
  \<^verbatim>\<open>GenerateBuildActions\<close> panics, the panic identifies the first such statement of
  the list, and the rules registered are those of the statements before it. No rule
  that the splicer registers comes from a statement with an empty command.
\<close>

theorem GenerateBuildActions_empty_command_panics:
  "(Command s = [] \<longrightarrow>
      registerBuildStatement env ob ctx i s = (ctx, Some (unhandled_build_statement s)))
   \<and> ((\<exists>s\<in>set (BuildStatementsToRegister bc). Command s = []) \<longrightarrow>
        (\<exists>pre s post. BuildStatementsToRegister bc = pre @ s # post
            \<and> (\<forall>t\<in>set pre. Command t \<noteq> []) \<and> Command s = []
            \<and> snd (GenerateBuildActions env bc ctx) = Some (unhandled_build_statement s)
            \<and> builtRules (fst (GenerateBuildActions env bc ctx))
                = builtRules ctx
                  @ map (\<lambda>(j, t). spec_nativeRule env (OutputBase bc) j t) (enumerate 0 pre)))
   \<and> (\<forall>r\<in>set (builtRules (fst (GenerateBuildActions env bc ctx))).
         r \<in> set (builtRules ctx)
         \<or> (\<exists>j t. t \<in> set (BuildStatementsToRegister bc) \<and> Command t \<noteq> []
                \<and> r = spec_nativeRule env (OutputBase bc) j t))"
proof (intro conjI impI ballI)
  assume "Command s = []"
  then show "registerBuildStatement env ob ctx i s = (ctx, Some (unhandled_build_statement s))"
    by (rule registerBuildStatement_empty)
next
  let ?P = "\<lambda>t. Command t \<noteq> []"
  let ?stmts = "BuildStatementsToRegister bc"
  assume "\<exists>s\<in>set ?stmts. Command s = []"
  then have "dropWhile ?P ?stmts \<noteq> []" by auto
  then obtain s post where d: "dropWhile ?P ?stmts = s # post"
    by (cases "dropWhile ?P ?stmts") auto
  then have split: "?stmts = takeWhile ?P ?stmts @ s # post" and e: "Command s = []"
    by (simp_all add: dropWhile_eq_Cons_conv)
  have pre: "\<forall>t\<in>set (takeWhile ?P ?stmts). Command t \<noteq> []"
    by (auto dest: set_takeWhileD)
  from GenerateBuildActions_char [of env bc ctx] d
  have "snd (GenerateBuildActions env bc ctx) = Some (unhandled_build_statement s)"
    and "builtRules (fst (GenerateBuildActions env bc ctx))
          = builtRules ctx @ map (\<lambda>(j, t). spec_nativeRule env (OutputBase bc) j t)
              (enumerate 0 (takeWhile ?P ?stmts))"
    by simp_all
  with split e pre
  show "\<exists>pre s post. ?stmts = pre @ s # post
            \<and> (\<forall>t\<in>set pre. Command t \<noteq> []) \<and> Command s = []
            \<and> snd (GenerateBuildActions env bc ctx) = Some (unhandled_build_statement s)
            \<and> builtRules (fst (GenerateBuildActions env bc ctx))
                = builtRules ctx
                  @ map (\<lambda>(j, t). spec_nativeRule env (OutputBase bc) j t) (enumerate 0 pre)"
    by blast
next
  let ?P = "\<lambda>t. Command t \<noteq> []"
  let ?stmts = "BuildStatementsToRegister bc"
  fix r
  assume "r \<in> set (builtRules (fst (GenerateBuildActions env bc ctx)))"
  with GenerateBuildActions_char [of env bc ctx]
  have "r \<in> set (builtRules ctx)
        \<or> r \<in> (\<lambda>(j, t). spec_nativeRule env (OutputBase bc) j t) ` set (enumerate 0 (takeWhile ?P ?stmts))"
    by auto
  then show "r \<in> set (builtRules ctx)
         \<or> (\<exists>j t. t \<in> set ?stmts \<and> Command t \<noteq> []
                \<and> r = spec_nativeRule env (OutputBase bc) j t)"
  proof
    assume "r \<in> set (builtRules ctx)"
    then show ?thesis by simp
  next
    assume "r \<in> (\<lambda>(j, t). spec_nativeRule env (OutputBase bc) j t) ` set (enumerate 0 (takeWhile ?P ?stmts))"
    then obtain j t where jt: "(j, t) \<in> set (enumerate 0 (takeWhile ?P ?stmts))"
      "r = spec_nativeRule env (OutputBase bc) j t" by auto
    from jt(1) have "t \<in> set (takeWhile ?P ?stmts)"
      by (auto simp: in_set_enumerate_eq)
    then have "t \<in> set ?stmts" "Command t \<noteq> []"
      by (auto dest: set_takeWhileD)
    with jt(2) show ?thesis by blast
  qed
qed

theorem GenerateBuildActions_empty_command_panics_witness:
  "registerBuildStatement exampleEnv ''/out/base'' emptySingleton 1 unknownAction
     = (emptySingleton, Some (unhandled_build_statement unknownAction))
   \<and> snd (GenerateBuildActions exampleEnv
       (Bazel (emptyContext\<lparr>buildStatements := [cppCompile, unknownAction]\<rparr>)) emptySingleton)
     = Some (unhandled_build_statement unknownAction)"
proof -
  let ?bc = "Bazel (emptyContext\<lparr>buildStatements := [cppCompile, unknownAction]\<rparr>)"
  note inst = GenerateBuildActions_empty_command_panics [of unknownAction exampleEnv "''/out/base''"
      emptySingleton 1 ?bc]
  have e: "Command unknownAction = []" and n: "Command cppCompile \<noteq> []"
    by (simp_all add: unknownAction_def cppCompile_def)
  from inst e have body: "registerBuildStatement exampleEnv ''/out/base'' emptySingleton 1 unknownAction
     = (emptySingleton, Some (unhandled_build_statement unknownAction))" by blast
  have "\<exists>s\<in>set (BuildStatementsToRegister ?bc). Command s = []"
    using e by simp
  with inst obtain pre s post where
    sp: "BuildStatementsToRegister ?bc = pre @ s # post" and se: "Command s = []"
    and p: "snd (GenerateBuildActions exampleEnv ?bc emptySingleton) = Some (unhandled_build_statement s)"
    by blast
  from sp have "s \<in> set (BuildStatementsToRegister ?bc)" by simp
  then have "s \<in> set [cppCompile, unknownAction]" by simp
  with se n have "s = unknownAction" by auto
  with body p show ?thesis by simp
qed

text \<open>
  Claim C5. For a build statement with a non-empty command, the body of the loop of the
  splicer registers exactly one rule, the rule of the specification for that statement:
  the command text \<open>cd <outputBase>/execroot/__main__ && <command>\<close>, the output
  paths as implicit outputs, the input paths as implicit inputs, a depfile that is not
  \<^verbatim>\<open>nil\<close> as implicit dependency file, restat set. \<^verbatim>\<open>GenerateBuildActions\<close>
  registers these rules, one for each statement and in the order of the list, for the
  statements that the loop reaches (those before the first statement with an empty
  command): for all statements when no command is empty, and then it does not panic.
\<close>

theorem GenerateBuildActions_registers_rule:
  "(Command s \<noteq> [] \<longrightarrow>
      registerBuildStatement env ob ctx i s
        = (ctx\<lparr>builtRules := builtRules ctx @ [spec_nativeRule env ob i s]\<rparr>, None))
   \<and> builtRules (fst (GenerateBuildActions env bc ctx))
       = builtRules ctx
         @ map (\<lambda>(j, t). spec_nativeRule env (OutputBase bc) j t)
             (enumerate 0 (takeWhile (\<lambda>t. Command t \<noteq> []) (BuildStatementsToRegister bc)))
   \<and> ((\<forall>t\<in>set (BuildStatementsToRegister bc). Command t \<noteq> []) \<longrightarrow>
        snd (GenerateBuildActions env bc ctx) = None
        \<and> builtRules (fst (GenerateBuildActions env bc ctx))
            = builtRules ctx
              @ map (\<lambda>(j, t). spec_nativeRule env (OutputBase bc) j t)
                  (enumerate 0 (BuildStatementsToRegister bc)))"
proof (intro conjI impI)
  assume "Command s \<noteq> []"
  then show "registerBuildStatement env ob ctx i s
        = (ctx\<lparr>builtRules := builtRules ctx @ [spec_nativeRule env ob i s]\<rparr>, None)"
    by (rule registerBuildStatement_nonempty)
next
  show "builtRules (fst (GenerateBuildActions env bc ctx))
       = builtRules ctx
         @ map (\<lambda>(j, t). spec_nativeRule env (OutputBase bc) j t)
             (enumerate 0 (takeWhile (\<lambda>t. Command t \<noteq> []) (BuildStatementsToRegister bc)))"
    using GenerateBuildActions_char [of env bc ctx] by simp
next
  assume all: "\<forall>t\<in>set (BuildStatementsToRegister bc). Command t \<noteq> []"
  then have tw: "takeWhile (\<lambda>t. Command t \<noteq> []) (BuildStatementsToRegister bc) = BuildStatementsToRegister bc"
    and dw: "dropWhile (\<lambda>t. Command t \<noteq> []) (BuildStatementsToRegister bc) = []"
    by simp_all
  from GenerateBuildActions_char [of env bc ctx] dw
  show "snd (GenerateBuildActions env bc ctx) = None" by simp
  from GenerateBuildActions_char [of env bc ctx] tw
  show "builtRules (fst (GenerateBuildActions env bc ctx))
            = builtRules ctx
              @ map (\<lambda>(j, t). spec_nativeRule env (OutputBase bc) j t)
                  (enumerate 0 (BuildStatementsToRegister bc))" by simp
qed

theorem GenerateBuildActions_registers_rule_witness:
  "builtRules (fst (GenerateBuildActions exampleEnv
       (Bazel (emptyContext\<lparr>buildStatements := [cppCompile]\<rparr>)) emptySingleton))
     = [\<lparr>rule_Text = ''cd /out/base/execroot/__main__ && clang -c a.cc -o a.o'',
         rule_ImplicitOutputs = [''/out/base/execroot/__main__/a.o''],
         rule_Implicits = [''/out/base/execroot/__main__/a.cc''],
         rule_ImplicitDepFiles = [],
         rule_Restat = True,
         rule_name = ''bazel 0'',
         rule_desc = ''CppCompile''\<rparr>]
   \<and> snd (GenerateBuildActions exampleEnv
       (Bazel (emptyContext\<lparr>buildStatements := [cppCompile]\<rparr>)) emptySingleton) = None"
  using GenerateBuildActions_registers_rule [of cppCompile exampleEnv "[]" emptySingleton 0
      "Bazel (emptyContext\<lparr>buildStatements := [cppCompile]\<rparr>)"]
  by (simp add: cppCompile_def emptyContext_def examplePaths_def exampleEnv_def emptySingleton_def
      spec_nativeRule_def decimal_0 enumerate_eq_zip)

subsection \<open>Architecture tagging\<close>











lemma foo_keys_distinct: "fooArm64 \<noteq> fooX86_64"
  by (simp add: fooArm64_def fooX86_64_def Arm64_def X86_64_def)







end
